theory Spec2Isabelle
  imports Complex_Main "HOL-Library.Char_ord" "HOL-Library.List_Lexorder"
begin

section \<open>Values, exceptions and the outside world\<close>

text \<open>
  The module \<open>geographic.py\<close> holds four functions. Each one talks to services outside
  the program (the Overpass boundary API, the Nominatim geocoder, files on disk) and
  hands the replies to library code. The replies are not computed by the program, so the
  model takes them from a record of services: a field of that record says what the
  service answers to a request, and whether the request raises. Everything the functions
  do themselves (validation, the order of the calls, what is caught, what is written) is
  modelled step by step.
\<close>

type_synonym path = string

text \<open>
  Python exceptions: the class, and the text that \<open>str(e)\<close> gives for the exception.
  All of them are subclasses of \<open>Exception\<close>, so both \<open>except Exception\<close> and a bare
  \<open>except\<close> catch every value of this type.
\<close>

datatype exn =
    Exception string
  | KeyError string
  | AttributeError string
  | ValueError string

text \<open>\<open>str(e)\<close>: the text the exception carries.\<close>

fun str :: "exn \<Rightarrow> string" where
  "str (Exception m) = m"
| "str (KeyError m) = m"
| "str (AttributeError m) = m"
| "str (ValueError m) = m"

text \<open>
  A word in single quotes. The text of a \<open>KeyError\<close> is the \<open>repr\<close> of the missing key;
  the keys this module subscripts with are the literals \<open>location\<close>, \<open>lat\<close>, \<open>long\<close>
  and \<open>type\<close>, and the \<open>repr\<close> of such a word is the word in single quotes.
\<close>

definition quoted :: "string \<Rightarrow> string" where
  "quoted word = [CHR 0x27] @ word @ [CHR 0x27]"

text \<open>\<open>s.split(c)\<close> for a one-character separator: never empty, \<open>''''.split(c) = ['''']\<close>.\<close>

fun split :: "string \<Rightarrow> char \<Rightarrow> string list" where
  "split [] c = [[]]"
| "split (x # xs) c =
     (if x = c then [] # split xs c
      else (case split xs c of
              [] \<Rightarrow> [[x]]
            | seg # segs \<Rightarrow> (x # seg) # segs))"

text \<open>What Nominatim returns for a match: a \<open>Location\<close> object.\<close>

record 'c location =
  longitude :: 'c
  latitude :: 'c
  address :: string

text \<open>
  A cell of a table: text, a coordinate (a Python float, kept abstract as \<open>'c\<close>),
  or a shapely \<open>Point(x, y)\<close>.
\<close>

datatype 'c cell = Text string | Float 'c | Point 'c 'c

text \<open>
  A one-row \<open>DataFrame\<close> built from a dict of columns: the column names with their
  single value, in the order of the dict.
\<close>

type_synonym 'c frame = "(string \<times> 'c cell) list"

text \<open>What the program does to the outside, in the order it does it.\<close>

datatype 'c event =
    ReadCsv path
  | Geocode string
  | Reverse string
  | PrintFrame "'c frame"
  | PrintValues "'c cell list"
  | Print string
  | Sleep nat

text \<open>
  The world: the CSV files written so far (a file is its list of lines, a line its list
  of cells; a path with no file is \<open>None\<close>) and the trace of events.
\<close>

record 'c world =
  fs :: "path \<Rightarrow> 'c cell list list option"
  trace :: "'c event list"

text \<open>
  The services. \<open>read_csv p\<close> is what \<open>pd.read_csv(p)\<close> yields: the data rows, each
  already rendered by \<open>to_string(index=False)\<close>, or the exception raised.
  \<open>open_csv p\<close> is what \<open>csv.DictReader\<close> over \<open>open(p, 'r')\<close> yields: one dict per row,
  with the columns of the header as keys and, as value, the text of the field or \<open>None\<close>
  where the row is too short; or the exception of \<open>open\<close>.
  \<open>geocode k q\<close> and \<open>reverse k q\<close> are the replies of
  Nominatim to the \<open>k\<close>-th request of a run (counted from 0) with text \<open>q\<close>: an
  exception, \<open>None\<close> (no match) or a location. Opening the output path for writing is
  taken to succeed.
\<close>

record 'c services =
  read_csv :: "path \<Rightarrow> exn + string list"
  open_csv :: "path \<Rightarrow> exn + (string \<times> string option) list list"
  geocode :: "nat \<Rightarrow> string \<Rightarrow> exn + 'c location option"
  reverse :: "nat \<Rightarrow> string \<Rightarrow> exn + 'c location option"

definition emit :: "'c event \<Rightarrow> 'c world \<Rightarrow> 'c world" where
  "emit ev w = w\<lparr>trace := trace w @ [ev]\<rparr>"

section \<open>\<open>convert_string_to_coordinates\<close>\<close>

text \<open>The file modes the function passes to \<open>to_csv\<close>: \<open>'w+'\<close> and \<open>'a'\<close>.\<close>

datatype mode = W_plus | A

text \<open>
  \<open>df.to_csv(path, mode=..., header=..., index=False)\<close> for a one-row frame: \<open>'w+'\<close>
  truncates (or creates) the file, \<open>'a'\<close> keeps what is there (or creates the file); then
  the header line, if asked for, and the data line are written.
\<close>

definition to_csv :: "'c frame \<Rightarrow> path \<Rightarrow> mode \<Rightarrow> bool \<Rightarrow> 'c world \<Rightarrow> 'c world" where
  "to_csv df p m header w =
     (let old = (case m of
                   W_plus \<Rightarrow> []
                 | A \<Rightarrow> (case fs w p of None \<Rightarrow> [] | Some ls \<Rightarrow> ls));
          new = (if header then [map (Text \<circ> fst) df] else []) @ [map snd df]
      in w\<lparr>fs := (fs w)(p \<mapsto> old @ new)\<rparr>)"

text \<open>The frame of the \<open>try\<close> branch (source lines 363 to 373).\<close>

definition matched_frame :: "string \<Rightarrow> 'c location \<Rightarrow> 'c frame" where
  "matched_frame location_name location =
     (let wkt = Point (longitude location) (latitude location)
      in [(''location_name'', Text location_name),
          (''long'', Float (latitude location)),
          (''lat'', Float (latitude location)),
          (''wkt'', wkt),
          (''address_exact'', Text (address location))])"

text \<open>The frame of the \<open>except Exception as e\<close> branch (source lines 375 to 381).\<close>

definition failed_frame :: "string \<Rightarrow> exn \<Rightarrow> 'c frame" where
  "failed_frame location_name e =
     [(''location_name'', Text location_name),
      (''long'', Text ''''),
      (''lat'', Text ''''),
      (''wkt'', Text ''''),
      (''address_exact'', Text (str e))]"

text \<open>
  What the \<open>try\<close> and its handler make of the geocoder's reply: when the call raises,
  the frame of the handler; when it returns \<open>None\<close>, reading \<open>location.longitude\<close>
  raises an \<open>AttributeError\<close>, which the handler catches like any exception of the call
  itself; else the frame of the match.
\<close>

definition no_longitude :: exn where
  "no_longitude =
     AttributeError (quoted ''NoneType'' @ '' object has no attribute '' @ quoted ''longitude'')"

definition frame_for_reply :: "string \<Rightarrow> exn + 'c location option \<Rightarrow> 'c frame" where
  "frame_for_reply row reply =
     (case reply of
        Inl e \<Rightarrow> failed_frame row e
      | Inr None \<Rightarrow> failed_frame row no_longitude
      | Inr (Some loc) \<Rightarrow> matched_frame row loc)"

text \<open>The frame of one turn of the loop: the geocoder is called with the text \<open>location\<close>.\<close>

definition output_addresses :: "'c services \<Rightarrow> nat \<Rightarrow> string \<Rightarrow> string \<Rightarrow> 'c frame" where
  "output_addresses sv i row location = frame_for_reply row (geocode sv i location)"

text \<open>
  The loop \<open>for i in range(len(locations))\<close>, from index \<open>i\<close> on, over the rows that
  are left.
\<close>

fun geocode_rows ::
  "'c services \<Rightarrow> path \<Rightarrow> string \<Rightarrow> nat \<Rightarrow> string list \<Rightarrow> 'c world \<Rightarrow> 'c world" where
  "geocode_rows sv path_to_output_csv append_str_to_input i [] w = w"
| "geocode_rows sv path_to_output_csv append_str_to_input i (row # rest) w =
     (let location = row @ '', '' @ append_str_to_input;
          w1 = emit (Geocode location) w;
          df = output_addresses sv i row location;
          w2 = emit (if i = 0 then PrintFrame df else PrintValues (map snd df)) w1;
          w3 = to_csv df path_to_output_csv (if i = 0 then W_plus else A) (i = 0) w2;
          w4 = emit (Sleep 1) w3
      in geocode_rows sv path_to_output_csv append_str_to_input (Suc i) rest w4)"

definition convert_string_to_coordinates ::
  "'c services \<Rightarrow> path \<Rightarrow> path \<Rightarrow> string \<Rightarrow> 'c world \<Rightarrow> (exn + unit) \<times> 'c world" where
  "convert_string_to_coordinates sv path_to_input_csv path_to_output_csv append_str_to_input w =
     (if last (split path_to_input_csv CHR ''.'') \<notin> set [''csv'']
      then (Inl (Exception ''The path must be in .csv or format.''), w)
      else
        (let w1 = emit (ReadCsv path_to_input_csv) w
         in case read_csv sv path_to_input_csv of
              Inl e \<Rightarrow> (Inl e, w1)
            | Inr locations \<Rightarrow>
                (Inr (),
                 emit (Print ''Program has finished running'')
                   (geocode_rows sv path_to_output_csv append_str_to_input 0 locations w1))))"

section \<open>\<open>convert_coordinates_to_address\<close>\<close>

definition fieldnames :: "string list" where
  "fieldnames = [''location'', ''lat'', ''long'', ''output_address'']"

text \<open>
  A value of a reader's dict in an f-string (\<open>None\<close> prints as \<open>None\<close>) and as a field
  written by \<open>csv.DictWriter\<close> (\<open>None\<close> is written as the empty field).
\<close>

definition format_value :: "string option \<Rightarrow> string" where
  "format_value v = (case v of None \<Rightarrow> ''None'' | Some text \<Rightarrow> text)"

definition csv_field :: "string option \<Rightarrow> string" where
  "csv_field v = (case v of None \<Rightarrow> '''' | Some text \<Rightarrow> text)"

text \<open>\<open>writer.writerow(d)\<close>: one more line at the end of the open file.\<close>

definition writerow :: "path \<Rightarrow> 'c cell list \<Rightarrow> 'c world \<Rightarrow> 'c world" where
  "writerow p line w =
     w\<lparr>fs := (fs w)(p \<mapsto> (case fs w p of None \<Rightarrow> [] | Some ls \<Rightarrow> ls) @ [line])\<rparr>"

text \<open>
  \<open>str(address)\<close> after the \<open>try\<close>: the message of the exception, \<open>'None'\<close> when there
  is no match, else the address of the location.
\<close>

definition output_address :: "'c services \<Rightarrow> nat \<Rightarrow> string \<Rightarrow> string" where
  "output_address sv k coordinates =
     (case reverse sv k coordinates of
        Inl e \<Rightarrow> str e
      | Inr None \<Rightarrow> ''None''
      | Inr (Some loc) \<Rightarrow> address loc)"

text \<open>
  The loop \<open>for row in reader\<close>; \<open>k\<close> counts the requests made so far. The three
  subscripts \<open>row['location']\<close>, \<open>row['lat']\<close> and \<open>row['long']\<close> are outside the
  \<open>try\<close>: a column that the dict does not have raises \<open>KeyError\<close> and ends the run.
\<close>

fun reverse_rows ::
  "'c services \<Rightarrow> path \<Rightarrow> nat \<Rightarrow> (string \<times> string option) list list \<Rightarrow> 'c world
     \<Rightarrow> (exn + unit) \<times> 'c world" where
  "reverse_rows sv path_to_output_csv k [] w = (Inr (), w)"
| "reverse_rows sv path_to_output_csv k (row # rest) w =
     (case map_of row ''location'' of
        None \<Rightarrow> (Inl (KeyError (quoted ''location'')), w)
      | Some location \<Rightarrow>
     (case map_of row ''lat'' of
        None \<Rightarrow> (Inl (KeyError (quoted ''lat'')), w)
      | Some lat \<Rightarrow>
     (case map_of row ''long'' of
        None \<Rightarrow> (Inl (KeyError (quoted ''long'')), w)
      | Some lon \<Rightarrow>
          (let coordinates = format_value lat @ '', '' @ format_value lon;
               w1 = emit (Reverse coordinates) w;
               w2 = writerow path_to_output_csv
                      [Text (csv_field location), Text (csv_field lat), Text (csv_field lon),
                       Text (output_address sv k coordinates)] w1
           in reverse_rows sv path_to_output_csv (Suc k) rest w2))))"

definition convert_coordinates_to_address ::
  "'c services \<Rightarrow> path \<Rightarrow> path \<Rightarrow> 'c world \<Rightarrow> (exn + unit) \<times> 'c world" where
  "convert_coordinates_to_address sv path_to_input_csv path_to_output_csv w =
     (if last (split path_to_input_csv CHR ''.'') \<notin> set [''csv'']
      then (Inl (Exception ''The path must be in .csv or format.''), w)
      else
        (let w1 = emit (ReadCsv path_to_input_csv) w
         in case open_csv sv path_to_input_csv of
              Inl e \<Rightarrow> (Inl e, w1)
            | Inr reader \<Rightarrow>
                (let w2 = w1\<lparr>fs := (fs w1)(path_to_output_csv \<mapsto> [])\<rparr>;
                     w3 = writerow path_to_output_csv (map Text fieldnames) w2
                 in case reverse_rows sv path_to_output_csv 0 reader w3 of
                      (Inl e, w4) \<Rightarrow> (Inl e, w4)
                    | (Inr u, w4) \<Rightarrow> (Inr (), emit (Print ''Conversion complete.'') w4))))"

section \<open>The boundary functions: data\<close>

text \<open>
  An element of the Overpass reply, \<open>r.toJSON()['elements']\<close>: a dict whose key
  \<open>type\<close> is \<open>node\<close>, \<open>way\<close> or \<open>relation\<close>. A node has \<open>id\<close>, \<open>lat\<close> and \<open>lon\<close>;
  the flag says whether the dict has the key \<open>tags\<close>.
\<close>

datatype 'c element =
    Node nat 'c 'c bool
  | Way nat bool
  | Relation nat bool

fun has_tags :: "'c element \<Rightarrow> bool" where
  "has_tags (Node i la lo t) = t"
| "has_tags (Way i t) = t"
| "has_tags (Relation i t) = t"

text \<open>A row of \<open>coordinates_df\<close> once only nodes are left: \<open>id\<close>, \<open>lat\<close>, \<open>lon\<close>.\<close>

type_synonym 'c node = "nat \<times> 'c \<times> 'c"

fun node_rows :: "'c element list \<Rightarrow> 'c node list" where
  "node_rows [] = []"
| "node_rows (Node i la lo t # es) = (i, la, lo) # node_rows es"
| "node_rows (e # es) = node_rows es"

text \<open>A row of \<open>polygons\<close> after \<open>dissolve\<close>: the index \<open>geohash\<close> and three columns.\<close>

record ('h, 'g) polygon =
  geohash :: 'h
  geometry :: 'g
  type_first :: string
  id_count :: nat

text \<open>
  The frame handed to the spatial join: indexed by geohash as \<open>dissolve\<close> leaves it, or,
  after \<open>drop(columns=["id", "type"]).reset_index()\<close>, with the columns \<open>geohash\<close>
  and \<open>geometry\<close> only.
\<close>

datatype ('h, 'g) polygons =
    Dissolved "('h, 'g) polygon list"
  | Reset "('h \<times> 'g) list"

text \<open>A value of a code or name column: text, or \<open>NaN\<close> where the lookup has no row.\<close>

type_synonym val = "string option"

text \<open>
  A row of \<open>join_result\<close>: the six columns the function reads, and the other columns
  (geometry, \<open>index_right\<close> and what comes from \<open>polygons\<close>) kept together as \<open>other_columns\<close>.
\<close>

record 'x join_row =
  LSOA21CD :: val
  LSOA21NM :: val
  MSOA21CD :: val
  MSOA21NM :: val
  LAD22CD :: val
  LAD22NM :: val
  other_columns :: 'x

datatype ('h, 'g) geo_event =
    Query string string
  | ReadFile path
  | ReadLookup path
  | Say string
  | SayPolygons nat "string option"
  | ShowPolygons "('h, 'g) polygons"

text \<open>
  The services and library operations of the boundary functions. \<open>overpass k country name\<close>
  is the element list of the reply to the \<open>k\<close>-th query of a run, for the boundary relation
  \<open>name\<close> in the area \<open>country\<close>. \<open>encode\<close> is \<open>geolib.geohash.encode\<close>, with its
  arguments in the order of the call. \<open>unary_union\<close> joins the points of a group (each a
  pair \<open>(x, y)\<close>) as \<open>dissolve\<close> does, \<open>convex_hull\<close> is the operation of that name.
  \<open>crs_error name\<close> is the exception, if any, with which the library refuses the name of
  a coordinate reference system when a \<open>GeoDataFrame\<close> is built with it.
  \<open>read_file\<close> and \<open>read_lookup\<close> read the two local files; \<open>select\<close> keeps the columns
  \<open>LSOA21CD\<close> and \<open>geometry\<close> and resets the index; \<open>merge\<close> is the left join with the
  lookup on \<open>LSOA21CD\<close>; \<open>to_crs\<close> projects to \<open>epsg:4386\<close>; \<open>sjoin\<close> is the inner join on
  \<open>intersects\<close>; \<open>data_frame\<close> is the constructor \<open>pd.DataFrame\<close> on a dict of three
  frames. Frames that the program only passes on have the type \<open>'f\<close>. Each operation may
  raise.
\<close>

record ('c, 'h, 'g, 'f, 'x) geo_services =
  overpass :: "nat \<Rightarrow> string \<Rightarrow> string \<Rightarrow> exn + 'c element list"
  encode :: "'c \<Rightarrow> 'c \<Rightarrow> nat \<Rightarrow> 'h"
  unary_union :: "('c \<times> 'c) list \<Rightarrow> 'g"
  convex_hull :: "'g \<Rightarrow> 'g"
  crs_error :: "string \<Rightarrow> exn option"
  read_file :: "path \<Rightarrow> exn + 'f"
  read_lookup :: "path \<Rightarrow> exn + 'f"
  select :: "'f \<Rightarrow> exn + 'f"
  merge :: "'f \<Rightarrow> 'f \<Rightarrow> exn + 'f"
  to_crs :: "'f \<Rightarrow> exn + 'f"
  sjoin :: "'f \<Rightarrow> ('h, 'g) polygons \<Rightarrow> exn + 'x join_row list"
  data_frame :: "(val \<times> val) list \<Rightarrow> (val \<times> val) list \<Rightarrow> (val \<times> val) list \<Rightarrow> exn + 'f"

text \<open>
  A computation that may raise and that adds to the trace: the result or the exception,
  with the trace so far.
\<close>

type_synonym ('a, 'h, 'g) run = "('h, 'g) geo_event list \<Rightarrow> (exn + 'a) \<times> ('h, 'g) geo_event list"

definition and_then :: "('a, 'h, 'g) run \<Rightarrow> ('a \<Rightarrow> ('b, 'h, 'g) run) \<Rightarrow> ('b, 'h, 'g) run" where
  "and_then m f tr = (case m tr of (Inl e, tr') \<Rightarrow> (Inl e, tr') | (Inr x, tr') \<Rightarrow> f x tr')"

definition call :: "exn + 'a \<Rightarrow> ('a, 'h, 'g) run" where
  "call r tr = (r, tr)"

definition say :: "('h, 'g) geo_event \<Rightarrow> (unit, 'h, 'g) run" where
  "say ev tr = (Inr (), tr @ [ev])"

text \<open>\<open>try: m except: h\<close> with a bare \<open>except\<close>: every exception of \<open>m\<close> goes to \<open>h\<close>.\<close>

definition try_except :: "('a, 'h, 'g) run \<Rightarrow> ('a, 'h, 'g) run \<Rightarrow> ('a, 'h, 'g) run" where
  "try_except m h tr = (case m tr of (Inl e, tr') \<Rightarrow> h tr' | (Inr x, tr') \<Rightarrow> (Inr x, tr'))"

text \<open>\<open>drop_duplicates()\<close>: the first occurrence of each row is kept.\<close>

fun drop_duplicates_from :: "'a list \<Rightarrow> 'a list \<Rightarrow> 'a list" where
  "drop_duplicates_from seen [] = []"
| "drop_duplicates_from seen (x # xs) =
     (if x \<in> set seen then drop_duplicates_from seen xs
      else x # drop_duplicates_from (x # seen) xs)"

definition drop_duplicates :: "'a list \<Rightarrow> 'a list" where
  "drop_duplicates xs = drop_duplicates_from [] xs"

section \<open>Clustering the nodes of a boundary (source lines 42 to 58)\<close>

text \<open>
  The elements without tags become a frame; on a frame with no rows the subscript
  \<open>['type']\<close> raises \<open>KeyError\<close>. With rows but no node among them, \<open>apply\<close> returns an
  empty frame and the assignment of the column \<open>geohash\<close> raises \<open>ValueError\<close>. Else
  every node gets the geohash of precision 3 of \<open>(lon, lat)\<close>, the frame of points is
  built with the reference system \<open>epsg:4386\<close>, \<open>dissolve\<close> makes one row
  per geohash, in ascending order, with the union of the group's points \<open>Point(lon, lat)\<close>,
  the first \<open>type\<close> and the count of \<open>id\<close>, and the geometry is replaced by its convex hull.
  The result is \<open>coordinates_df\<close> (the nodes with their geohash) and \<open>polygons\<close>.
\<close>

definition cluster ::
  "('c, 'h::linorder, 'g, 'f, 'x) geo_services \<Rightarrow> 'c element list
     \<Rightarrow> exn + ('c node \<times> 'h) list \<times> ('h, 'g) polygon list" where
  "cluster sv elements =
     (let filtered = filter (\<lambda>i. \<not> has_tags i) elements
      in if filtered = [] then Inl (KeyError (quoted ''type''))
         else if node_rows filtered = []
         then Inl (ValueError ''Cannot set a DataFrame with multiple columns to the single column geohash'')
         else
           (let coordinates_df =
                  map (\<lambda>(i, la, lo). ((i, la, lo), encode sv lo la 3)) (node_rows filtered);
                groups = sort (remdups (map snd coordinates_df));
                polygons =
                  map (\<lambda>h.
                         (let members = filter (\<lambda>r. snd r = h) coordinates_df
                          in \<lparr>geohash = h,
                              geometry = convex_hull sv
                                (unary_union sv (map (\<lambda>((i, la, lo), k). (lo, la)) members)),
                              type_first = ''node'',
                              id_count = length members\<rparr>))
                      groups
            in case crs_error sv ''epsg:4386'' of
                 Some e \<Rightarrow> Inl e
               | None \<Rightarrow> Inr (coordinates_df, polygons)))"

section \<open>The geohash of a point\<close>

text \<open>
  \<open>geolib.geohash.encode(lat, lon, precision)\<close>, the library function behind the
  service \<open>encode\<close>: the standard geohash. The longitude interval from -180 to 180 and
  the latitude interval from -90 to 90 are halved in turn, longitude first; each halving
  gives one bit, 1 when the coordinate is in the upper half; five bits make one character
  of the alphabet \<open>base32\<close>, and \<open>precision\<close> characters are produced. The function
  does not check that the coordinates are in range. Its first argument is the latitude.
\<close>

definition base32 :: string where
  "base32 = ''0123456789bcdefghjkmnpqrstuvwxyz''"

fun geohash_bits ::
  "nat \<Rightarrow> bool \<Rightarrow> 'c::linordered_field \<Rightarrow> 'c \<Rightarrow> 'c \<Rightarrow> 'c \<Rightarrow> 'c \<Rightarrow> 'c \<Rightarrow> bool list" where
  "geohash_bits 0 even_bit lat lon lat_min lat_max lon_min lon_max = []"
| "geohash_bits (Suc n) even_bit lat lon lat_min lat_max lon_min lon_max =
     (if even_bit
      then (let lon_mid = (lon_min + lon_max) / 2
            in if lon \<ge> lon_mid
               then True # geohash_bits n False lat lon lat_min lat_max lon_mid lon_max
               else False # geohash_bits n False lat lon lat_min lat_max lon_min lon_mid)
      else (let lat_mid = (lat_min + lat_max) / 2
            in if lat \<ge> lat_mid
               then True # geohash_bits n True lat lon lat_mid lat_max lon_min lon_max
               else False # geohash_bits n True lat lon lat_min lat_mid lon_min lon_max))"

fun base32_chars :: "bool list \<Rightarrow> string" where
  "base32_chars (b1 # b2 # b3 # b4 # b5 # bits) =
     (base32 ! foldl (\<lambda>index b. index * 2 + (if b then 1 else 0)) 0 [b1, b2, b3, b4, b5])
       # base32_chars bits"
| "base32_chars bits = []"

definition geohash_encode :: "'c::linordered_field \<Rightarrow> 'c \<Rightarrow> nat \<Rightarrow> string" where
  "geohash_encode lat lon precision =
     base32_chars (geohash_bits (5 * precision) True lat lon (- 90) 90 (- 180) 180)"

section \<open>\<open>convert_string_to_boundary\<close>\<close>

datatype ('c, 'h, 'g) boundary =
    Geometry "('h, 'g) polygon list"
  | Coordinates "('c node \<times> 'h) list"

definition convert_string_to_boundary ::
  "('c, 'h::linorder, 'g, 'f, 'x) geo_services \<Rightarrow> string \<Rightarrow> string \<Rightarrow> bool
     \<Rightarrow> (('c, 'h, 'g) boundary, 'h, 'g) run" where
  "convert_string_to_boundary sv country location return_geometry =
     and_then (say (Query country location)) (\<lambda>_.
     and_then (call (overpass sv 0 country location)) (\<lambda>elements.
     and_then (call (cluster sv elements)) (\<lambda>(coordinates_df, polygons).
     call (Inr (if return_geometry then Geometry polygons else Coordinates coordinates_df)))))"

section \<open>\<open>convert_string_to_uk_geog\<close>\<close>

text \<open>
  The frames the two UK functions return: two named columns of codes and names, the raw
  join result, and the same with the column \<open>input_location\<close> in front; the overview of
  the list function has the three pairs of columns side by side.
\<close>

datatype 'x frame_out =
    Codes string string "(val \<times> val) list"
  | Join "'x join_row list"
  | LocatedCodes string string "(string \<times> val \<times> val) list"
  | LocatedOverview "(string \<times> (val \<times> val) \<times> (val \<times> val) \<times> (val \<times> val)) list"
  | LocatedJoin "(string \<times> 'x join_row) list"

definition convert_string_to_uk_geog ::
  "('c, 'h::linorder, 'g, 'f, 'x) geo_services \<Rightarrow> string \<Rightarrow> path \<Rightarrow> path \<Rightarrow> string
     \<Rightarrow> ('x frame_out option, 'h, 'g) run" where
  "convert_string_to_uk_geog sv location lsoa_boundary_files_path lsoa_msoa_la_lookup_path
       output_geog =
     and_then (say (Query ''United Kingdom'' location)) (\<lambda>_.
     and_then (call (overpass sv 0 ''United Kingdom'' location)) (\<lambda>elements.
     and_then (call (cluster sv elements)) (\<lambda>(coordinates_df, polygons).
     and_then (say (Say ''Reading in LSOA boundary file... This will take a while...'')) (\<lambda>_.
     and_then (say (ReadFile lsoa_boundary_files_path)) (\<lambda>_.
     and_then (call (read_file sv lsoa_boundary_files_path)) (\<lambda>lsoa_boundary_file.
     and_then (call (select sv lsoa_boundary_file)) (\<lambda>lsoa_boundary_file.
     and_then (say (ReadLookup lsoa_msoa_la_lookup_path)) (\<lambda>_.
     and_then (call (read_lookup sv lsoa_msoa_la_lookup_path)) (\<lambda>lsoa_msoa_la_lookup.
     and_then (call (merge sv lsoa_boundary_file lsoa_msoa_la_lookup)) (\<lambda>lsoa_boundary_file.
     and_then (say (SayPolygons (length polygons) None)) (\<lambda>_.
     and_then (say (ShowPolygons (Dissolved polygons))) (\<lambda>_.
     and_then (call (to_crs sv lsoa_boundary_file)) (\<lambda>lsoa_boundary_file.
     and_then (say (Say ''Performing spatial join...'')) (\<lambda>_.
     and_then (call (sjoin sv lsoa_boundary_file (Dissolved polygons))) (\<lambda>join_result.
       (let unique_lsoa_codes = drop_duplicates (map (\<lambda>r. (LSOA21CD r, LSOA21NM r)) join_result);
            unique_msoa_codes = drop_duplicates (map (\<lambda>r. (MSOA21CD r, MSOA21NM r)) join_result);
            unique_la_codes = drop_duplicates (map (\<lambda>r. (LAD22CD r, LAD22NM r)) join_result)
        in if output_geog = ''lsoa''
           then call (Inr (Some (Codes ''LSOA21CD'' ''LSOA21NM'' unique_lsoa_codes)))
           else if output_geog = ''msoa''
           then call (Inr (Some (Codes ''MSOA21CD'' ''MSOA21NM'' unique_msoa_codes)))
           else if output_geog = ''la''
           then call (Inr (Some (Codes ''LAD22CD'' ''LAD22NM'' unique_la_codes)))
           else if output_geog = ''overview''
           then and_then
                  (call (data_frame sv unique_lsoa_codes unique_msoa_codes unique_la_codes))
                  (\<lambda>output_df. call (Inr None))
           else if output_geog = ''raw''
           then call (Inr (Some (Join join_result)))
           else call (Inr None)))))))))))))))))"

section \<open>\<open>convert_list_to_uk_geog\<close>\<close>

text \<open>The five frames that collect the results of all locations.\<close>

record 'x results =
  all_results_unique_lsoa_codes_df :: "(string \<times> val \<times> val) list"
  all_results_unique_msoa_codes_df :: "(string \<times> val \<times> val) list"
  all_results_unique_la_codes_df :: "(string \<times> val \<times> val) list"
  all_results_overview_df :: "(string \<times> (val \<times> val) \<times> (val \<times> val) \<times> (val \<times> val)) list"
  all_results_join_result :: "(string \<times> 'x join_row) list"

definition no_results :: "'x results" where
  "no_results =
     \<lparr>all_results_unique_lsoa_codes_df = [],
      all_results_unique_msoa_codes_df = [],
      all_results_unique_la_codes_df = [],
      all_results_overview_df = [],
      all_results_join_result = []\<rparr>"

text \<open>
  The five \<open>if\<close> statements at the end of the \<open>try\<close> (source lines 287 to 306), after the
  column \<open>input_location\<close> has been added to the frames of this location. The overview is
  the left merge of the LA frame with the MSOA frame and then with the LSOA frame on
  \<open>input_location\<close>, which has one value here.
\<close>

definition collect ::
  "string \<Rightarrow> string \<Rightarrow> 'x join_row list \<Rightarrow> 'x results \<Rightarrow> 'x results" where
  "collect output_geog location join_result acc =
     (let unique_lsoa_codes_df =
            map (\<lambda>(c, n). (location, c, n))
              (drop_duplicates (map (\<lambda>r. (LSOA21CD r, LSOA21NM r)) join_result));
          unique_msoa_codes_df =
            map (\<lambda>(c, n). (location, c, n))
              (drop_duplicates (map (\<lambda>r. (MSOA21CD r, MSOA21NM r)) join_result));
          unique_la_codes_df =
            map (\<lambda>(c, n). (location, c, n))
              (drop_duplicates (map (\<lambda>r. (LAD22CD r, LAD22NM r)) join_result));
          join_result = map (\<lambda>r. (location, r)) join_result;
          acc1 = (if output_geog = ''lsoa''
                  then acc\<lparr>all_results_unique_lsoa_codes_df :=
                             all_results_unique_lsoa_codes_df acc @ unique_lsoa_codes_df\<rparr>
                  else acc);
          acc2 = (if output_geog = ''msoa''
                  then acc1\<lparr>all_results_unique_msoa_codes_df :=
                              all_results_unique_msoa_codes_df acc1 @ unique_msoa_codes_df\<rparr>
                  else acc1);
          acc3 = (if output_geog = ''la''
                  then acc2\<lparr>all_results_unique_la_codes_df :=
                              all_results_unique_la_codes_df acc2 @ unique_la_codes_df\<rparr>
                  else acc2);
          acc4 = (if output_geog = ''overview''
                  then (let overview_df =
                              concat (map (\<lambda>(l, la). concat (map (\<lambda>(l', msoa).
                                 map (\<lambda>(l'', lsoa). (l, lsoa, msoa, la)) unique_lsoa_codes_df)
                                   unique_msoa_codes_df)) unique_la_codes_df)
                        in acc3\<lparr>all_results_overview_df :=
                                   all_results_overview_df acc3 @ overview_df\<rparr>)
                  else acc3)
      in if output_geog = ''raw''
         then acc4\<lparr>all_results_join_result := all_results_join_result acc4 @ join_result\<rparr>
         else acc4)"

text \<open>The body of the \<open>try\<close> for one location (source lines 240 to 306).\<close>

definition location_body ::
  "('c, 'h::linorder, 'g, 'f, 'x) geo_services \<Rightarrow> 'f \<Rightarrow> 'f \<Rightarrow> string \<Rightarrow> string
     \<Rightarrow> 'c element list \<Rightarrow> 'x results \<Rightarrow> ('x results, 'h, 'g) run" where
  "location_body sv lsoa_boundary_file lsoa_msoa_la_lookup output_geog location elements acc =
     and_then (call (cluster sv elements)) (\<lambda>(coordinates_df, polygons).
       (let num_polygons = length polygons;
            polygons = Reset (map (\<lambda>p. (geohash p, geometry p)) polygons)
        in and_then (call (merge sv lsoa_boundary_file lsoa_msoa_la_lookup))
             (\<lambda>lsoa_boundary_file_joined.
           and_then (say (SayPolygons num_polygons (Some location))) (\<lambda>_.
           and_then (say (ShowPolygons polygons)) (\<lambda>_.
           and_then (say (Say ''Performing spatial join...'')) (\<lambda>_.
           and_then (call (sjoin sv lsoa_boundary_file_joined polygons)) (\<lambda>join_result.
           call (Inr (collect output_geog location join_result acc)))))))))"

text \<open>
  One turn of \<open>for location in locations_list\<close>: the query and the reading of its
  reply come before the \<open>try\<close>; the handler prints and the frames stay as they were.
\<close>

definition one_location ::
  "('c, 'h::linorder, 'g, 'f, 'x) geo_services \<Rightarrow> 'f \<Rightarrow> 'f \<Rightarrow> string \<Rightarrow> nat \<Rightarrow> string
     \<Rightarrow> 'x results \<Rightarrow> ('x results, 'h, 'g) run" where
  "one_location sv lsoa_boundary_file lsoa_msoa_la_lookup output_geog k location acc =
     and_then (say (Query ''United Kingdom'' location)) (\<lambda>_.
     and_then (call (overpass sv k ''United Kingdom'' location)) (\<lambda>elements.
     try_except
       (location_body sv lsoa_boundary_file lsoa_msoa_la_lookup output_geog location elements acc)
       (and_then (say (Say (''Error. Likely no polygons found for '' @ location)))
          (\<lambda>_. call (Inr acc)))))"

fun all_locations ::
  "('c, 'h::linorder, 'g, 'f, 'x) geo_services \<Rightarrow> 'f \<Rightarrow> 'f \<Rightarrow> string \<Rightarrow> nat \<Rightarrow> string list
     \<Rightarrow> 'x results \<Rightarrow> ('x results, 'h, 'g) run" where
  "all_locations sv lsoa_boundary_file lsoa_msoa_la_lookup output_geog k [] acc tr = (Inr acc, tr)"
| "all_locations sv lsoa_boundary_file lsoa_msoa_la_lookup output_geog k (location # rest) acc tr =
     (case one_location sv lsoa_boundary_file lsoa_msoa_la_lookup output_geog k location acc tr of
        (Inl e, tr') \<Rightarrow> (Inl e, tr')
      | (Inr acc', tr') \<Rightarrow>
          all_locations sv lsoa_boundary_file lsoa_msoa_la_lookup output_geog (Suc k) rest acc' tr')"

definition convert_list_to_uk_geog ::
  "('c, 'h::linorder, 'g, 'f, 'x) geo_services \<Rightarrow> string list \<Rightarrow> path \<Rightarrow> path \<Rightarrow> string
     \<Rightarrow> ('x frame_out option, 'h, 'g) run" where
  "convert_list_to_uk_geog sv locations_list lsoa_boundary_files_path lsoa_msoa_la_lookup_path
       output_geog =
     and_then (say (Say ''Reading in LSOA boundary file... This will take a while...'')) (\<lambda>_.
     and_then (say (ReadFile lsoa_boundary_files_path)) (\<lambda>_.
     and_then (call (read_file sv lsoa_boundary_files_path)) (\<lambda>lsoa_boundary_file.
     and_then (call (select sv lsoa_boundary_file)) (\<lambda>lsoa_boundary_file.
     and_then (call (to_crs sv lsoa_boundary_file)) (\<lambda>lsoa_boundary_file.
     and_then (say (ReadLookup lsoa_msoa_la_lookup_path)) (\<lambda>_.
     and_then (call (read_lookup sv lsoa_msoa_la_lookup_path)) (\<lambda>lsoa_msoa_la_lookup.
     and_then (all_locations sv lsoa_boundary_file lsoa_msoa_la_lookup output_geog 0
                 locations_list no_results) (\<lambda>acc.
       if output_geog = ''lsoa''
       then call (Inr (Some (LocatedCodes ''LSOA21CD'' ''LSOA21NM''
                               (all_results_unique_lsoa_codes_df acc))))
       else if output_geog = ''msoa''
       then call (Inr (Some (LocatedCodes ''MSOA21CD'' ''MSOA21NM''
                               (all_results_unique_msoa_codes_df acc))))
       else if output_geog = ''la''
       then call (Inr (Some (LocatedCodes ''LAD22CD'' ''LAD22NM''
                               (all_results_unique_la_codes_df acc))))
       else if output_geog = ''overview''
       then call (Inr (Some (LocatedOverview (all_results_overview_df acc))))
       else if output_geog = ''raw''
       then call (Inr (Some (LocatedJoin (all_results_join_result acc))))
       else call (Inr None)))))))))"

section \<open>Reading the results of a run\<close>

text \<open>
  The column names of the frame \<open>output_addresses\<close>, the line that \<open>to_csv\<close> writes for
  the row with index \<open>i\<close>, and the geocoder requests found in a trace.
\<close>

definition columns :: "string list" where
  "columns = [''location_name'', ''long'', ''lat'', ''wkt'', ''address_exact'']"

definition data_line :: "'c services \<Rightarrow> string \<Rightarrow> nat \<Rightarrow> string \<Rightarrow> 'c cell list" where
  "data_line sv append_str_to_input i row =
     map snd (output_addresses sv i row (row @ '', '' @ append_str_to_input))"

fun data_lines :: "'c services \<Rightarrow> string \<Rightarrow> nat \<Rightarrow> string list \<Rightarrow> 'c cell list list" where
  "data_lines sv app i [] = []"
| "data_lines sv app i (row # rest) = data_line sv app i row # data_lines sv app (Suc i) rest"

fun geocoded :: "'c event list \<Rightarrow> string list" where
  "geocoded [] = []"
| "geocoded (Geocode q # evs) = q # geocoded evs"
| "geocoded (ev # evs) = geocoded evs"


text \<open>
  The same for \<open>convert_coordinates_to_address\<close>: the line \<open>writerow\<close> writes for a
  row of the reader that has the three columns, and what it means to have them.
\<close>

definition address_line ::
  "'c services \<Rightarrow> nat \<Rightarrow> (string \<times> string option) list \<Rightarrow> 'c cell list" where
  "address_line sv k row =
     (case (map_of row ''location'', map_of row ''lat'', map_of row ''long'') of
        (Some location, Some lat, Some lon) \<Rightarrow>
          [Text (csv_field location), Text (csv_field lat), Text (csv_field lon),
           Text (output_address sv k (format_value lat @ '', '' @ format_value lon))]
      | _ \<Rightarrow> [])"

fun address_lines ::
  "'c services \<Rightarrow> nat \<Rightarrow> (string \<times> string option) list list \<Rightarrow> 'c cell list list" where
  "address_lines sv k [] = []"
| "address_lines sv k (row # rest) = address_line sv k row # address_lines sv (Suc k) rest"

definition well_formed :: "(string \<times> string option) list \<Rightarrow> bool" where
  "well_formed row \<longleftrightarrow>
     map_of row ''location'' \<noteq> None \<and> map_of row ''lat'' \<noteq> None \<and> map_of row ''long'' \<noteq> None"


section \<open>Example services and worlds\<close>

text \<open>
  A geocoder that finds London when asked for London with the suffix and times out on
  any other text, a reverse geocoder that refuses every request, an input whose second
  row is too short to have a longitude, the same services with another answer to the
  bare row values, an input with no rows, a world with no files and a world where
  \<open>out.csv\<close> already has a line.
\<close>

definition london :: "int location" where
  "london = \<lparr>longitude = - 1, latitude = 51, address = ''London, UK''\<rparr>"

definition example_reader :: "(string \<times> string option) list list" where
  "example_reader =
     [[(''location'', Some ''Place A''), (''lat'', Some ''40.7''), (''long'', Some ''-74.0'')],
      [(''location'', Some ''Place B''), (''lat'', Some ''51.5''), (''long'', None)]]"

definition example_services :: "int services" where
  "example_services =
     \<lparr>read_csv = (\<lambda>p. Inr [''London'', ''Atlantis'']),
      open_csv = (\<lambda>p. Inr example_reader),
      geocode = (\<lambda>k q. if q = ''London, '' \<or> q = ''London, UK'' then Inr (Some london)
                       else Inl (Exception ''timed out'')),
      reverse = (\<lambda>k q. if q = ''51.5, None''
                       then Inl (ValueError ''Must be a coordinate pair or Point'')
                       else Inl (Exception ''timed out''))\<rparr>"

definition deaf_to_raw_rows :: "int services" where
  "deaf_to_raw_rows =
     example_services
       \<lparr>geocode := (\<lambda>k q. if q = ''London'' \<or> q = ''Atlantis'' then Inr None
                          else geocode example_services k q)\<rparr>"

definition empty_input :: "int services" where
  "empty_input =
     \<lparr>read_csv = (\<lambda>p. Inr []),
      open_csv = (\<lambda>p. Inr []),
      geocode = (\<lambda>k q. Inr None),
      reverse = (\<lambda>k q. Inr None)\<rparr>"

definition new_world :: "int world" where
  "new_world = \<lparr>fs = Map.empty, trace = []\<rparr>"

definition old_world :: "int world" where
  "old_world = \<lparr>fs = [''out.csv'' \<mapsto> [[Text ''kept'']]], trace = []\<rparr>"


text \<open>
  Services for the boundary functions: Overpass knows London (six elements, four of them
  nodes without tags) and Atlantis (no element) and times out on any other name; the
  geohash of a point is a tenth of its first coordinate; the spatial join finds the same
  row twice; the frame constructor refuses a dict of frames.
\<close>

definition example_row :: "unit join_row" where
  "example_row =
     \<lparr>LSOA21CD = Some ''E01000001'', LSOA21NM = Some ''City of London 001A'',
      MSOA21CD = Some ''E02000001'', MSOA21NM = Some ''City of London 001'',
      LAD22CD = Some ''E09000001'', LAD22NM = Some ''City of London'',
      other_columns = ()\<rparr>"

definition example_geo :: "(int, nat, (int \<times> int) list, string, unit) geo_services" where
  "example_geo =
     \<lparr>overpass = (\<lambda>k country name.
         if name = ''London''
         then Inr [Relation 1 True, Way 2 False, Node 3 51 0 False, Node 4 52 1 False,
                   Node 5 10 40 True, Node 6 51 30 False]
         else if name = ''Atlantis'' then Inr []
         else Inl (Exception ''timed out'')),
      encode = (\<lambda>x y precision. nat (x div 10)),
      unary_union = (\<lambda>points. points),
      convex_hull = (\<lambda>g. g),
      crs_error = (\<lambda>name. None),
      read_file = (\<lambda>p. Inr ''boundaries''),
      read_lookup = (\<lambda>p. Inr ''lookup''),
      select = (\<lambda>f. Inr f),
      merge = (\<lambda>f g. Inr f),
      to_crs = (\<lambda>f. Inr f),
      sjoin = (\<lambda>f ps. Inr [example_row, example_row]),
      data_frame = (\<lambda>a b c. Inl (ValueError ''If using all scalar values, you must pass an index''))\<rparr>"


text \<open>
  Services whose \<open>encode\<close> is the geohash of the library, with a reply of three nodes
  without tags: one at latitude 51, longitude 0, and two at latitude 55, longitudes 95
  and 160.
\<close>

definition geolib_services :: "(rat, string, (rat \<times> rat) list, string, unit) geo_services" where
  "geolib_services =
     \<lparr>overpass = (\<lambda>k country name.
         Inr [Node 11 51 0 False, Node 12 55 95 False, Node 13 55 160 False]),
      encode = geohash_encode,
      unary_union = (\<lambda>points. points),
      convex_hull = (\<lambda>g. g),
      crs_error = (\<lambda>name. None),
      read_file = (\<lambda>p. Inr ''boundaries''),
      read_lookup = (\<lambda>p. Inr ''lookup''),
      select = (\<lambda>f. Inr f),
      merge = (\<lambda>f g. Inr f),
      to_crs = (\<lambda>f. Inr f),
      sjoin = (\<lambda>f ps. Inr []),
      data_frame = (\<lambda>a b c. Inl (ValueError ''If using all scalar values, you must pass an index''))\<rparr>"

section \<open>The loop of \<open>convert_string_to_coordinates\<close>\<close>

lemma geocoded_append: "geocoded (xs @ ys) = geocoded xs @ geocoded ys"
  by (induction xs rule: geocoded.induct) simp_all

lemma columns_of_output_addresses: "map fst (output_addresses sv i row q) = columns"
  by (simp add: output_addresses_def frame_for_reply_def failed_frame_def matched_frame_def
           columns_def split: sum.split option.split)

lemma data_lines_nth:
  "data_lines sv app i rows = map (\<lambda>j. data_line sv app (i + j) (rows ! j)) [0..<length rows]"
proof (induction rows arbitrary: i)
  case Nil
  then show ?case by simp
next
  case (Cons row rest)
  have "[0..<length (row # rest)] = 0 # map Suc [0..<length rest]"
    by (simp add: upt_conv_Cons map_Suc_upt del: upt_Suc)
  then show ?case
    by (simp add: Cons.IH comp_def del: upt_Suc)
qed

lemma geocode_rows_later:
  "fs w out = Some old \<Longrightarrow>
   fs (geocode_rows sv out app (Suc i) rows w) = (fs w)(out \<mapsto> old @ data_lines sv app (Suc i) rows)"
proof (induction rows arbitrary: i w old)
  case Nil
  then show ?case by (simp add: fun_upd_idem)
next
  case (Cons row rest)
  define df where "df = output_addresses sv (Suc i) row (row @ '', '' @ app)"
  define w4 where
    "w4 = emit (Sleep 1) (to_csv df out A False
            (emit (PrintValues (map snd df)) (emit (Geocode (row @ '', '' @ app)) w)))"
  have written: "fs w4 = (fs w)(out \<mapsto> old @ [data_line sv app (Suc i) row])"
    using Cons.prems by (simp add: w4_def df_def emit_def to_csv_def data_line_def)
  have step: "geocode_rows sv out app (Suc i) (row # rest) w
                = geocode_rows sv out app (Suc (Suc i)) rest w4"
    by (simp add: w4_def df_def Let_def)
  have "fs (geocode_rows sv out app (Suc (Suc i)) rest w4)
          = (fs w4)(out \<mapsto> (old @ [data_line sv app (Suc i) row])
                                @ data_lines sv app (Suc (Suc i)) rest)"
    by (rule Cons.IH) (simp add: written)
  then show ?case
    unfolding step by (simp add: written)
qed

lemma geocode_rows_first:
  "fs (geocode_rows sv out app 0 (row # rest) w)
     = (fs w)(out \<mapsto> map Text columns # data_lines sv app 0 (row # rest))"
proof -
  define df where "df = output_addresses sv 0 row (row @ '', '' @ app)"
  define w4 where
    "w4 = emit (Sleep 1) (to_csv df out W_plus True
            (emit (PrintFrame df) (emit (Geocode (row @ '', '' @ app)) w)))"
  have hdr: "map (Text \<circ> fst) df = map Text columns"
    using columns_of_output_addresses [of sv 0 row "row @ '', '' @ app"]
    by (simp add: df_def flip: map_map)
  have written: "fs w4 = (fs w)(out \<mapsto> [map Text columns, data_line sv app 0 row])"
    by (simp add: w4_def emit_def to_csv_def hdr) (simp add: df_def data_line_def)
  have step: "geocode_rows sv out app 0 (row # rest) w = geocode_rows sv out app (Suc 0) rest w4"
    by (simp add: w4_def df_def Let_def)
  have "fs (geocode_rows sv out app (Suc 0) rest w4)
          = (fs w4)(out \<mapsto> [map Text columns, data_line sv app 0 row]
                                @ data_lines sv app (Suc 0) rest)"
    by (rule geocode_rows_later) (simp add: written)
  then show ?thesis
    unfolding step by (simp add: written)
qed

lemma geocode_rows_trace:
  "geocoded (trace (geocode_rows sv out app i rows w))
     = geocoded (trace w) @ map (\<lambda>row. row @ '', '' @ app) rows"
proof (induction rows arbitrary: i w)
  case Nil
  then show ?case by simp
next
  case (Cons row rest)
  show ?case
    by (simp add: Let_def Cons.IH emit_def to_csv_def geocoded_append)
qed

lemma geocode_rows_agree:
  assumes "\<forall>j < length rows. geocode sv' (i + j) (rows ! j @ '', '' @ app)
                                 = geocode sv (i + j) (rows ! j @ '', '' @ app)"
  shows "geocode_rows sv' out app i rows w = geocode_rows sv out app i rows w"
  using assms
proof (induction rows arbitrary: i w)
  case Nil
  then show ?case by simp
next
  case (Cons row rest)
  have "0 < length (row # rest)" by simp
  with Cons.prems
  have "geocode sv' (i + 0) ((row # rest) ! 0 @ '', '' @ app)
          = geocode sv (i + 0) ((row # rest) ! 0 @ '', '' @ app)"
    by blast
  then have first: "output_addresses sv' i row (row @ '', '' @ app)
                      = output_addresses sv i row (row @ '', '' @ app)"
    by (simp add: output_addresses_def)
  have later: "\<forall>j < length rest. geocode sv' (Suc i + j) (rest ! j @ '', '' @ app)
                                     = geocode sv (Suc i + j) (rest ! j @ '', '' @ app)"
  proof (intro allI impI)
    fix j assume "j < length rest"
    then have "Suc j < length (row # rest)" by simp
    with Cons.prems
    have "geocode sv' (i + Suc j) ((row # rest) ! Suc j @ '', '' @ app)
            = geocode sv (i + Suc j) ((row # rest) ! Suc j @ '', '' @ app)"
      by blast
    then show "geocode sv' (Suc i + j) (rest ! j @ '', '' @ app)
                 = geocode sv (Suc i + j) (rest ! j @ '', '' @ app)"
      by simp
  qed
  show ?case
    by (simp only: geocode_rows.simps Let_def first Cons.IH [OF later])
qed


section \<open>The loop of \<open>convert_coordinates_to_address\<close>\<close>

lemma address_lines_nth:
  "address_lines sv k rows = map (\<lambda>j. address_line sv (k + j) (rows ! j)) [0..<length rows]"
proof (induction rows arbitrary: k)
  case Nil
  then show ?case by simp
next
  case (Cons row rest)
  have "[0..<length (row # rest)] = 0 # map Suc [0..<length rest]"
    by (simp add: upt_conv_Cons map_Suc_upt del: upt_Suc)
  then show ?case
    by (simp add: Cons.IH comp_def del: upt_Suc)
qed

lemma reverse_rows_well_formed:
  "\<forall>row \<in> set rows. well_formed row \<Longrightarrow> fs w out = Some old \<Longrightarrow>
   fst (reverse_rows sv out k rows w) = Inr ()
   \<and> fs (snd (reverse_rows sv out k rows w)) = (fs w)(out \<mapsto> old @ address_lines sv k rows)"
proof (induction rows arbitrary: k w old)
  case Nil
  then show ?case by (simp add: fun_upd_idem)
next
  case (Cons row rest)
  from Cons.prems(1) obtain location lat lon where
    keys: "map_of row ''location'' = Some location" "map_of row ''lat'' = Some lat"
          "map_of row ''long'' = Some lon"
    by (auto simp: well_formed_def)
  define coordinates where "coordinates = format_value lat @ '', '' @ format_value lon"
  define w2 where
    "w2 = writerow out [Text (csv_field location), Text (csv_field lat), Text (csv_field lon),
                        Text (output_address sv k coordinates)]
            (emit (Reverse coordinates) w)"
  have line: "address_line sv k row
                = [Text (csv_field location), Text (csv_field lat), Text (csv_field lon),
                   Text (output_address sv k coordinates)]"
    by (simp add: address_line_def keys coordinates_def)
  have written: "fs w2 = (fs w)(out \<mapsto> old @ [address_line sv k row])"
    using Cons.prems(2) by (simp add: w2_def writerow_def emit_def line)
  have step: "reverse_rows sv out k (row # rest) w = reverse_rows sv out (Suc k) rest w2"
    by (simp add: keys w2_def coordinates_def Let_def)
  have "fst (reverse_rows sv out (Suc k) rest w2) = Inr ()
        \<and> fs (snd (reverse_rows sv out (Suc k) rest w2))
            = (fs w2)(out \<mapsto> (old @ [address_line sv k row]) @ address_lines sv (Suc k) rest)"
    using Cons.prems(1) by (intro Cons.IH) (simp_all add: written)
  then show ?case
    unfolding step by (simp add: written)
qed

lemma geocode_rows_forgets:
  "geocode_rows sv out app 0 (row # rest) (w\<lparr>fs := (fs w)(out := old)\<rparr>)
     = geocode_rows sv out app 0 (row # rest) w"
  by (simp add: Let_def emit_def to_csv_def)


section \<open>The output file after a run\<close>

lemma file_of_convert_string_to_coordinates:
  assumes "last (split p CHR ''.'') = ''csv''"
      and "read_csv sv p = Inr locations"
      and "locations \<noteq> []"
  shows "fs (snd (convert_string_to_coordinates sv p out app w)) out
           = Some (map Text columns # data_lines sv app 0 locations)"
proof -
  from assms(3) obtain row rest where rows: "locations = row # rest"
    by (cases locations) auto
  show ?thesis
    using assms(1,2) unfolding rows convert_string_to_coordinates_def Let_def
    by (simp add: emit_def geocode_rows_first del: geocode_rows.simps data_lines.simps)
qed

lemma file_of_convert_coordinates_to_address:
  assumes "last (split p CHR ''.'') = ''csv''"
      and "open_csv sv p = Inr reader"
      and "\<forall>row \<in> set reader. well_formed row"
  shows "fst (convert_coordinates_to_address sv p out w) = Inr ()
       \<and> fs (snd (convert_coordinates_to_address sv p out w)) out
           = Some (map Text fieldnames # address_lines sv 0 reader)"
proof -
  define w3 where
    "w3 = writerow out (map Text fieldnames)
            ((emit (ReadCsv p) w)\<lparr>fs := (fs (emit (ReadCsv p) w))(out \<mapsto> [])\<rparr>)"
  have start: "fs w3 out = Some [map Text fieldnames]"
    by (simp add: w3_def writerow_def)
  have loop: "fst (reverse_rows sv out 0 reader w3) = Inr ()
        \<and> fs (snd (reverse_rows sv out 0 reader w3))
            = (fs w3)(out \<mapsto> [map Text fieldnames] @ address_lines sv 0 reader)"
    using assms(3) start by (rule reverse_rows_well_formed)
  obtain r w4 where run: "reverse_rows sv out 0 reader w3 = (r, w4)"
    by (cases "reverse_rows sv out 0 reader w3")
  have "convert_coordinates_to_address sv p out w
          = (case reverse_rows sv out 0 reader w3 of
               (Inl e, w4) \<Rightarrow> (Inl e, w4)
             | (Inr u, w4) \<Rightarrow> (Inr (), emit (Print ''Conversion complete.'') w4))"
    using assms(1,2) by (simp add: convert_coordinates_to_address_def w3_def Let_def)
  then show ?thesis
    using loop by (simp add: run emit_def)
qed


section \<open>Properties of the geocoding functions\<close>

text \<open>
  Claim C5. When the last segment of the input path after splitting at the dots is not
  \<open>csv\<close>, both \<open>convert_string_to_coordinates\<close> and \<open>convert_coordinates_to_address\<close>
  raise at once: the result is the exception of the validation and the world is the one
  the call started in, so no file was read, no request was sent and no file was created
  or changed.
\<close>

theorem bad_extension_raises_first:
  assumes "last (split path_to_input_csv CHR ''.'') \<noteq> ''csv''"
  shows "convert_string_to_coordinates sv path_to_input_csv out app w
           = (Inl (Exception ''The path must be in .csv or format.''), w)
       \<and> convert_coordinates_to_address sv path_to_input_csv out w
           = (Inl (Exception ''The path must be in .csv or format.''), w)"
  using assms by (simp add: convert_string_to_coordinates_def convert_coordinates_to_address_def)

theorem bad_extension_raises_first_witness:
  "last (split ''in.txt'' CHR ''.'') \<noteq> ''csv''
   \<and> convert_string_to_coordinates example_services ''in.txt'' ''out.csv'' '''' old_world
           = (Inl (Exception ''The path must be in .csv or format.''), old_world)
   \<and> convert_coordinates_to_address example_services ''in.txt'' ''out.csv'' old_world
           = (Inl (Exception ''The path must be in .csv or format.''), old_world)"
proof -
  have h: "last (split ''in.txt'' CHR ''.'') \<noteq> ''csv''" by simp
  show ?thesis
    using h bad_extension_raises_first [OF h, of example_services "''out.csv''" "''''" old_world]
    by simp
qed

text \<open>
  Claim C9. The text sent to the geocoder for a row is the row's value, then a comma and
  a space, then \<open>append_str_to_input\<close>. The requests of a run are exactly these, one per
  row in input order; with the default empty \<open>append_str_to_input\<close> each is the value
  followed by a comma and a space; and such a text is never the value itself. The line
  written for row \<open>i\<close> is built from the geocoder's reply to request \<open>i\<close> with exactly
  this text, and the whole run depends on the geocoder through these replies only: two
  geocoders that answer these requests alike give the same run, whatever they answer to
  any other text.
\<close>

theorem geocoder_queries:
  assumes "last (split path_to_input_csv CHR ''.'') = ''csv''"
      and "read_csv sv path_to_input_csv = Inr locations"
  shows "geocoded (trace (snd (convert_string_to_coordinates sv path_to_input_csv out app w)))
           = geocoded (trace w) @ map (\<lambda>row. row @ '', '' @ app) locations
       \<and> geocoded (trace (snd (convert_string_to_coordinates sv path_to_input_csv out '''' w)))
           = geocoded (trace w) @ map (\<lambda>row. row @ '', '') locations
       \<and> (\<forall>row. row @ '', '' @ app \<noteq> row)
       \<and> (\<forall>i < length locations.
             \<exists>ls. fs (snd (convert_string_to_coordinates sv path_to_input_csv out app w)) out
                    = Some ls
                 \<and> ls ! Suc i
                    = map snd (frame_for_reply (locations ! i)
                                 (geocode sv i (locations ! i @ '', '' @ app))))
       \<and> (\<forall>sv'. read_csv sv' path_to_input_csv = Inr locations
               \<and> (\<forall>i < length locations.
                      geocode sv' i (locations ! i @ '', '' @ app)
                        = geocode sv i (locations ! i @ '', '' @ app))
               \<longrightarrow> convert_string_to_coordinates sv' path_to_input_csv out app w
                     = convert_string_to_coordinates sv path_to_input_csv out app w)"
proof (intro conjI)
  show "geocoded (trace (snd (convert_string_to_coordinates sv path_to_input_csv out app w)))
           = geocoded (trace w) @ map (\<lambda>row. row @ '', '' @ app) locations"
    using assms
    by (simp add: convert_string_to_coordinates_def emit_def geocode_rows_trace geocoded_append
          Let_def)
next
  show "geocoded (trace (snd (convert_string_to_coordinates sv path_to_input_csv out '''' w)))
           = geocoded (trace w) @ map (\<lambda>row. row @ '', '') locations"
    using assms
    by (simp add: convert_string_to_coordinates_def emit_def geocode_rows_trace geocoded_append
          Let_def)
next
  show "\<forall>row. row @ '', '' @ app \<noteq> row"
    by simp
next
  show "\<forall>i < length locations.
             \<exists>ls. fs (snd (convert_string_to_coordinates sv path_to_input_csv out app w)) out
                    = Some ls
                 \<and> ls ! Suc i
                    = map snd (frame_for_reply (locations ! i)
                                 (geocode sv i (locations ! i @ '', '' @ app)))"
  proof (intro allI impI)
    fix i assume i: "i < length locations"
    then have "locations \<noteq> []" by auto
    with assms have "fs (snd (convert_string_to_coordinates sv path_to_input_csv out app w)) out
                       = Some (map Text columns # data_lines sv app 0 locations)"
      by (rule file_of_convert_string_to_coordinates)
    moreover have "data_lines sv app 0 locations ! i
                     = map snd (frame_for_reply (locations ! i)
                                 (geocode sv i (locations ! i @ '', '' @ app)))"
      using i by (simp add: data_lines_nth data_line_def output_addresses_def)
    ultimately show "\<exists>ls. fs (snd (convert_string_to_coordinates sv path_to_input_csv out app w))
                             out = Some ls
                 \<and> ls ! Suc i
                    = map snd (frame_for_reply (locations ! i)
                                 (geocode sv i (locations ! i @ '', '' @ app)))"
      by simp
  qed
next
  show "\<forall>sv'. read_csv sv' path_to_input_csv = Inr locations
               \<and> (\<forall>i < length locations.
                      geocode sv' i (locations ! i @ '', '' @ app)
                        = geocode sv i (locations ! i @ '', '' @ app))
               \<longrightarrow> convert_string_to_coordinates sv' path_to_input_csv out app w
                     = convert_string_to_coordinates sv path_to_input_csv out app w"
  proof (intro allI impI, elim conjE)
    fix sv' :: "'a services"
    assume read: "read_csv sv' path_to_input_csv = Inr locations"
       and same: "\<forall>i < length locations.
                      geocode sv' i (locations ! i @ '', '' @ app)
                        = geocode sv i (locations ! i @ '', '' @ app)"
    have "\<forall>j < length locations. geocode sv' (0 + j) (locations ! j @ '', '' @ app)
                                     = geocode sv (0 + j) (locations ! j @ '', '' @ app)"
      using same by simp
    then have "geocode_rows sv' out app 0 locations (emit (ReadCsv path_to_input_csv) w)
                 = geocode_rows sv out app 0 locations (emit (ReadCsv path_to_input_csv) w)"
      by (rule geocode_rows_agree)
    then show "convert_string_to_coordinates sv' path_to_input_csv out app w
                 = convert_string_to_coordinates sv path_to_input_csv out app w"
      using assms read by (simp add: convert_string_to_coordinates_def Let_def)
  qed
qed

theorem geocoder_queries_witness:
  "last (split ''in.csv'' CHR ''.'') = ''csv''
   \<and> read_csv example_services ''in.csv'' = Inr [''London'', ''Atlantis'']
   \<and> geocoded (trace (snd (convert_string_to_coordinates example_services ''in.csv'' ''out.csv''
                               ''UK'' new_world)))
        = [''London, UK'', ''Atlantis, UK'']
   \<and> geocode example_services 0 ''London, UK'' = Inr (Some london)
   \<and> geocode example_services 0 ''London'' = Inl (Exception ''timed out'')
   \<and> (\<exists>ls. fs (snd (convert_string_to_coordinates example_services ''in.csv'' ''out.csv'' ''UK''
                        new_world)) ''out.csv'' = Some ls
          \<and> ls ! 1 = [Text ''London'', Float 51, Float 51, Point (- 1) 51, Text ''London, UK''])
   \<and> geocode deaf_to_raw_rows 0 ''London'' = Inr None
   \<and> convert_string_to_coordinates deaf_to_raw_rows ''in.csv'' ''out.csv'' ''UK'' new_world
        = convert_string_to_coordinates example_services ''in.csv'' ''out.csv'' ''UK'' new_world"
proof -
  have h1: "last (split ''in.csv'' CHR ''.'') = ''csv''" by simp
  have h2: "read_csv example_services ''in.csv'' = Inr [''London'', ''Atlantis'']"
    by (simp add: example_services_def)
  note all = geocoder_queries [OF h1 h2, of "''out.csv''" "''UK''" new_world]
  note requests = all [THEN conjunct1]
  note lines = all [THEN conjunct2, THEN conjunct2, THEN conjunct2, THEN conjunct1]
  note only = all [THEN conjunct2, THEN conjunct2, THEN conjunct2, THEN conjunct2]
  have sent: "geocoded (trace (snd (convert_string_to_coordinates example_services ''in.csv''
                                ''out.csv'' ''UK'' new_world)))
                = [''London, UK'', ''Atlantis, UK'']"
    using requests by (simp add: new_world_def)
  have reply: "geocode example_services 0 ''London, UK'' = Inr (Some london)"
    by (simp add: example_services_def)
  have raw: "geocode example_services 0 ''London'' = Inl (Exception ''timed out'')"
    by (simp add: example_services_def)
  have deaf: "geocode deaf_to_raw_rows 0 ''London'' = Inr None"
    by (simp add: deaf_to_raw_rows_def)
  have "\<exists>ls. fs (snd (convert_string_to_coordinates example_services ''in.csv'' ''out.csv''
                        ''UK'' new_world)) ''out.csv'' = Some ls
          \<and> ls ! Suc 0 = map snd (frame_for_reply ([''London'', ''Atlantis''] ! 0)
                 (geocode example_services 0 ([''London'', ''Atlantis''] ! 0 @ '', '' @ ''UK'')))"
    using lines [rule_format, of 0] by simp
  then have line: "\<exists>ls. fs (snd (convert_string_to_coordinates example_services ''in.csv''
                        ''out.csv'' ''UK'' new_world)) ''out.csv'' = Some ls
          \<and> ls ! 1 = [Text ''London'', Float 51, Float 51, Point (- 1) 51, Text ''London, UK'']"
    by (simp add: reply frame_for_reply_def matched_frame_def london_def)
  have read': "read_csv deaf_to_raw_rows ''in.csv'' = Inr [''London'', ''Atlantis'']"
    by (simp add: deaf_to_raw_rows_def example_services_def)
  have same: "\<forall>i < length [''London'', ''Atlantis''].
                 geocode deaf_to_raw_rows i ([''London'', ''Atlantis''] ! i @ '', '' @ ''UK'')
                   = geocode example_services i ([''London'', ''Atlantis''] ! i @ '', '' @ ''UK'')"
    by (simp add: deaf_to_raw_rows_def nth_Cons')
  have equal: "convert_string_to_coordinates deaf_to_raw_rows ''in.csv'' ''out.csv'' ''UK'' new_world
        = convert_string_to_coordinates example_services ''in.csv'' ''out.csv'' ''UK'' new_world"
    using only [rule_format, of deaf_to_raw_rows] read' same by (intro only [rule_format]) simp_all
  show ?thesis
    using h1 h2 sent reply raw line deaf equal by (intro conjI)
qed

text \<open>
  Claim C2. A run over the rows London and Atlantis, where the geocoder answers the first
  request with longitude \<open>-1\<close> and latitude \<open>51\<close>: the line written for London has the
  latitude \<open>51\<close> in the column \<open>long\<close>, not the longitude \<open>-1\<close>, while \<open>lat\<close> and
  \<open>wkt\<close> hold what the geocoder returned.
\<close>

theorem long_column_holds_latitude:
  "fs (snd (convert_string_to_coordinates example_services ''in.csv'' ''out.csv'' '''' new_world))
      ''out.csv''
   = Some [[Text ''location_name'', Text ''long'', Text ''lat'', Text ''wkt'', Text ''address_exact''],
           [Text ''London'', Float 51, Float 51, Point (- 1) 51, Text ''London, UK''],
           [Text ''Atlantis'', Text '''', Text '''', Text '''', Text ''timed out'']]
   \<and> geocode example_services 0 ''London, '' = Inr (Some \<lparr>longitude = - 1, latitude = 51, address = ''London, UK''\<rparr>)"
  by (simp add: convert_string_to_coordinates_def example_services_def new_world_def london_def
        emit_def to_csv_def output_addresses_def frame_for_reply_def matched_frame_def
        failed_frame_def Let_def)

text \<open>
  Claim C4. A request that raises still gets its line. In \<open>convert_string_to_coordinates\<close>,
  when the request for row \<open>i\<close> raises \<open>e\<close>, the run ends normally, the output file has
  the header and one line per input row, and the line of row \<open>i\<close> carries the row's
  value, three empty cells and \<open>str(e)\<close> in \<open>address_exact\<close>. In
  \<open>convert_coordinates_to_address\<close>, over an input whose header has the columns
  \<open>location\<close>, \<open>lat\<close> and \<open>long\<close> (a row may be too short and have \<open>None\<close> for some
  of them), when the request for row \<open>j\<close> raises \<open>e'\<close>, the run ends normally, the file
  has the header and one line per row, and the line of row \<open>j\<close> carries the row's three
  values and \<open>str(e')\<close> in \<open>output_address\<close>.
\<close>

theorem geocoder_failure_written:
  assumes "last (split p CHR ''.'') = ''csv''"
      and "read_csv sv p = Inr locations"
      and "i < length locations"
      and "geocode sv i (locations ! i @ '', '' @ app) = Inl e"
      and "last (split q CHR ''.'') = ''csv''"
      and "open_csv sv q = Inr reader"
      and "\<forall>row \<in> set reader. {''location'', ''lat'', ''long''} \<subseteq> dom (map_of row)"
      and "j < length reader"
      and "map_of (reader ! j) ''location'' = Some location"
      and "map_of (reader ! j) ''lat'' = Some lat"
      and "map_of (reader ! j) ''long'' = Some lon"
      and "reverse sv j (format_value lat @ '', '' @ format_value lon) = Inl e'"
  shows "fst (convert_string_to_coordinates sv p out app w) = Inr ()
       \<and> (\<exists>ls. fs (snd (convert_string_to_coordinates sv p out app w)) out = Some ls
              \<and> length ls = Suc (length locations)
              \<and> ls ! Suc i = [Text (locations ! i), Text '''', Text '''', Text '''', Text (str e)])
       \<and> fst (convert_coordinates_to_address sv q out' w') = Inr ()
       \<and> (\<exists>ls. fs (snd (convert_coordinates_to_address sv q out' w')) out' = Some ls
              \<and> length ls = Suc (length reader)
              \<and> ls ! Suc j = [Text (csv_field location), Text (csv_field lat),
                               Text (csv_field lon), Text (str e')])"
proof -
  have rows: "locations \<noteq> []"
    using assms(3) by auto
  have done1: "fst (convert_string_to_coordinates sv p out app w) = Inr ()"
    using assms(1,2) by (simp add: convert_string_to_coordinates_def Let_def)
  have file1: "fs (snd (convert_string_to_coordinates sv p out app w)) out
                 = Some (map Text columns # data_lines sv app 0 locations)"
    using assms(1,2) rows by (rule file_of_convert_string_to_coordinates)
  have line1: "data_lines sv app 0 locations ! i
                 = [Text (locations ! i), Text '''', Text '''', Text '''', Text (str e)]"
    using assms(3,4)
    by (simp add: data_lines_nth data_line_def output_addresses_def frame_for_reply_def
          failed_frame_def)
  have len1: "length (data_lines sv app 0 locations) = length locations"
    by (simp add: data_lines_nth)
  have wf: "\<forall>row \<in> set reader. well_formed row"
    using assms(7) by (auto simp: well_formed_def dom_def)
  have run2: "fst (convert_coordinates_to_address sv q out' w') = Inr ()
       \<and> fs (snd (convert_coordinates_to_address sv q out' w')) out'
           = Some (map Text fieldnames # address_lines sv 0 reader)"
    using assms(5,6) wf by (rule file_of_convert_coordinates_to_address)
  have line2: "address_lines sv 0 reader ! j
                 = [Text (csv_field location), Text (csv_field lat), Text (csv_field lon),
                    Text (str e')]"
    using assms(8-12)
    by (simp add: address_lines_nth address_line_def output_address_def)
  have len2: "length (address_lines sv 0 reader) = length reader"
    by (simp add: address_lines_nth)
  show ?thesis
    using done1 file1 line1 len1 run2 line2 len2 by simp
qed

theorem geocoder_failure_written_witness:
  "last (split ''in.csv'' CHR ''.'') = ''csv''
   \<and> read_csv example_services ''in.csv'' = Inr [''London'', ''Atlantis'']
   \<and> (1::nat) < length [''London'', ''Atlantis'']
   \<and> geocode example_services 1 ([''London'', ''Atlantis''] ! 1 @ '', '' @ ''UK'')
        = Inl (Exception ''timed out'')
   \<and> example_reader ! 1
        = [(''location'', Some ''Place B''), (''lat'', Some ''51.5''), (''long'', None)]
   \<and> reverse example_services 1 (format_value (Some ''51.5'') @ '', '' @ format_value None)
        = Inl (ValueError ''Must be a coordinate pair or Point'')
   \<and> fst (convert_string_to_coordinates example_services ''in.csv'' ''out.csv'' ''UK'' new_world)
        = Inr ()
   \<and> (\<exists>ls. fs (snd (convert_string_to_coordinates example_services ''in.csv'' ''out.csv'' ''UK''
                        new_world)) ''out.csv'' = Some ls
          \<and> length ls = 3
          \<and> ls ! 2 = [Text ''Atlantis'', Text '''', Text '''', Text '''', Text ''timed out''])
   \<and> fst (convert_coordinates_to_address example_services ''in.csv'' ''out.csv'' old_world) = Inr ()
   \<and> (\<exists>ls. fs (snd (convert_coordinates_to_address example_services ''in.csv'' ''out.csv''
                        old_world)) ''out.csv'' = Some ls
          \<and> length ls = 3
          \<and> ls ! 2 = [Text ''Place B'', Text ''51.5'', Text '''',
                       Text ''Must be a coordinate pair or Point''])"
proof -
  have h1: "last (split ''in.csv'' CHR ''.'') = ''csv''" by simp
  have h2: "read_csv example_services ''in.csv'' = Inr [''London'', ''Atlantis'']"
    by (simp add: example_services_def)
  have h3: "(1::nat) < length [''London'', ''Atlantis'']" by simp
  have h4: "geocode example_services 1 ([''London'', ''Atlantis''] ! 1 @ '', '' @ ''UK'')
              = Inl (Exception ''timed out'')"
    by (simp add: example_services_def)
  have h6: "open_csv example_services ''in.csv'' = Inr example_reader"
    by (simp add: example_services_def)
  have h7: "\<forall>row \<in> set example_reader. {''location'', ''lat'', ''long''} \<subseteq> dom (map_of row)"
    by (simp add: example_reader_def)
  have h8: "(1::nat) < length example_reader"
    by (simp add: example_reader_def)
  have row: "example_reader ! 1
        = [(''location'', Some ''Place B''), (''lat'', Some ''51.5''), (''long'', None)]"
    by (simp add: example_reader_def)
  have h9: "map_of (example_reader ! 1) ''location'' = Some (Some ''Place B'')"
    unfolding row by simp
  have h10: "map_of (example_reader ! 1) ''lat'' = Some (Some ''51.5'')"
    unfolding row by simp
  have h11: "map_of (example_reader ! 1) ''long'' = Some None"
    unfolding row by simp
  have h12: "reverse example_services 1 (format_value (Some ''51.5'') @ '', '' @ format_value None)
               = Inl (ValueError ''Must be a coordinate pair or Point'')"
    by (simp add: example_services_def format_value_def)
  have len: "length example_reader = 2"
    by (simp add: example_reader_def)
  show ?thesis
    using h1 h2 h3 h4 h12 row
      geocoder_failure_written [OF h1 h2 h3 h4 h1 h6 h7 h8 h9 h10 h11 h12,
        of "''out.csv''" new_world "''out.csv''" old_world]
    by (simp add: numeral_2_eq_2 numeral_3_eq_3 len csv_field_def)
qed


text \<open>
  Claim C7, as stated, at an input with no rows: the loop body never runs, so no header
  is written; the run ends normally and there is still no output file.
\<close>

theorem no_rows_no_header:
  "read_csv empty_input ''in.csv'' = Inr []
   \<and> fst (convert_string_to_coordinates empty_input ''in.csv'' ''out.csv'' '''' new_world) = Inr ()
   \<and> fs (snd (convert_string_to_coordinates empty_input ''in.csv'' ''out.csv'' '''' new_world))
        ''out.csv'' = None"
  by (simp add: convert_string_to_coordinates_def empty_input_def new_world_def emit_def)


text \<open>
  Claim C7, amended. For an input with at least one row, whatever was at the output path
  before, the output file after the run is the header line followed by one data line per
  input row, in input order: line \<open>i\<close> is the frame built for row \<open>i\<close>.
\<close>

theorem header_then_one_line_per_row:
  assumes "last (split path_to_input_csv CHR ''.'') = ''csv''"
      and "read_csv sv path_to_input_csv = Inr locations"
      and "locations \<noteq> []"
  shows "fst (convert_string_to_coordinates sv path_to_input_csv out app w) = Inr ()
       \<and> fs (snd (convert_string_to_coordinates sv path_to_input_csv out app w)) out
           = Some (map Text [''location_name'', ''long'', ''lat'', ''wkt'', ''address_exact'']
                   # map (\<lambda>i. data_line sv app i (locations ! i)) [0..<length locations])"
proof -
  have "fst (convert_string_to_coordinates sv path_to_input_csv out app w) = Inr ()"
    using assms(1,2) by (simp add: convert_string_to_coordinates_def Let_def)
  moreover have "data_lines sv app 0 locations
                   = map (\<lambda>i. data_line sv app i (locations ! i)) [0..<length locations]"
    by (simp add: data_lines_nth)
  ultimately show ?thesis
    using file_of_convert_string_to_coordinates [OF assms, of out app w]
    by (simp add: columns_def)
qed

theorem header_then_one_line_per_row_witness:
  "last (split ''in.csv'' CHR ''.'') = ''csv''
   \<and> read_csv example_services ''in.csv'' = Inr [''London'', ''Atlantis'']
   \<and> [''London'', ''Atlantis''] \<noteq> []
   \<and> fs (snd (convert_string_to_coordinates example_services ''in.csv'' ''out.csv'' '''' old_world))
        ''out.csv''
      = Some [[Text ''location_name'', Text ''long'', Text ''lat'', Text ''wkt'', Text ''address_exact''],
              data_line example_services '''' 0 ''London'',
              data_line example_services '''' 1 ''Atlantis'']"
proof -
  have h1: "last (split ''in.csv'' CHR ''.'') = ''csv''" by simp
  have h2: "read_csv example_services ''in.csv'' = Inr [''London'', ''Atlantis'']"
    by (simp add: example_services_def)
  have h3: "[''London'', ''Atlantis''] \<noteq> []" by simp
  have "[0..<length [''London'', ''Atlantis'']] = [0, 1]"
    by (simp add: upt_conv_Cons)
  then show ?thesis
    using h1 h2 header_then_one_line_per_row [OF h1 h2 h3, of "''out.csv''" "''''" old_world]
    by simp
qed


text \<open>
  Claim C10, as stated, at an input with no rows: \<open>convert_string_to_coordinates\<close> ends
  normally and the line that was in the output file before the run is still there.
\<close>

theorem no_rows_keeps_old_content:
  "read_csv empty_input ''in.csv'' = Inr []
   \<and> fs old_world ''out.csv'' = Some [[Text ''kept'']]
   \<and> fst (convert_string_to_coordinates empty_input ''in.csv'' ''out.csv'' '''' old_world) = Inr ()
   \<and> fs (snd (convert_string_to_coordinates empty_input ''in.csv'' ''out.csv'' '''' old_world))
        ''out.csv'' = Some [[Text ''kept'']]"
  by (simp add: convert_string_to_coordinates_def empty_input_def old_world_def emit_def)


text \<open>
  Claim C10, amended. \<open>convert_string_to_coordinates\<close> on an input with at least one row,
  and \<open>convert_coordinates_to_address\<close> on an input file that opens, give the same result
  and the same final world whatever the output path held before the run (some content
  or no file): the earlier content is replaced, never appended to.
\<close>

theorem old_content_replaced:
  assumes "last (split p CHR ''.'') = ''csv''"
      and "read_csv sv p = Inr (row # rest)"
      and "last (split q CHR ''.'') = ''csv''"
      and "open_csv sv q = Inr reader"
  shows "convert_string_to_coordinates sv p out app (w\<lparr>fs := (fs w)(out := old)\<rparr>)
           = convert_string_to_coordinates sv p out app w
       \<and> convert_coordinates_to_address sv q out (w\<lparr>fs := (fs w)(out := old)\<rparr>)
           = convert_coordinates_to_address sv q out w"
proof
  have "geocode_rows sv out app 0 (row # rest)
          ((emit (ReadCsv p) w)\<lparr>fs := (fs (emit (ReadCsv p) w))(out := old)\<rparr>)
        = geocode_rows sv out app 0 (row # rest) (emit (ReadCsv p) w)"
    by (rule geocode_rows_forgets)
  moreover have "emit (ReadCsv p) (w\<lparr>fs := (fs w)(out := old)\<rparr>)
                   = (emit (ReadCsv p) w)\<lparr>fs := (fs (emit (ReadCsv p) w))(out := old)\<rparr>"
    by (simp add: emit_def)
  ultimately show "convert_string_to_coordinates sv p out app (w\<lparr>fs := (fs w)(out := old)\<rparr>)
           = convert_string_to_coordinates sv p out app w"
    using assms(1,2)
    by (simp add: convert_string_to_coordinates_def Let_def del: geocode_rows.simps)
next
  show "convert_coordinates_to_address sv q out (w\<lparr>fs := (fs w)(out := old)\<rparr>)
           = convert_coordinates_to_address sv q out w"
    using assms(3,4)
    by (simp add: convert_coordinates_to_address_def Let_def emit_def)
qed

theorem old_content_replaced_witness:
  "last (split ''in.csv'' CHR ''.'') = ''csv''
   \<and> read_csv example_services ''in.csv'' = Inr [''London'', ''Atlantis'']
   \<and> open_csv example_services ''in.csv'' = Inr example_reader
   \<and> convert_string_to_coordinates example_services ''in.csv'' ''out.csv'' '''' old_world
        = convert_string_to_coordinates example_services ''in.csv'' ''out.csv'' '''' new_world
   \<and> convert_coordinates_to_address example_services ''in.csv'' ''out.csv'' old_world
        = convert_coordinates_to_address example_services ''in.csv'' ''out.csv'' new_world"
proof -
  have h1: "last (split ''in.csv'' CHR ''.'') = ''csv''" by simp
  have h2: "read_csv example_services ''in.csv'' = Inr [''London'', ''Atlantis'']"
    by (simp add: example_services_def)
  have h3: "open_csv example_services ''in.csv'' = Inr example_reader"
    by (simp add: example_services_def)
  have old: "old_world = new_world\<lparr>fs := (fs new_world)(''out.csv'' := Some [[Text ''kept'']])\<rparr>"
    by (simp add: old_world_def new_world_def)
  show ?thesis
    using h1 h2 h3
      old_content_replaced [OF h1 h2 h1 h3, of "''out.csv''" "''''" new_world "Some [[Text ''kept'']]"]
    unfolding old by blast
qed

section \<open>The boundary functions: running the steps\<close>

lemma and_then_call:
  "and_then (call r) f tr = (case r of Inl e \<Rightarrow> (Inl e, tr) | Inr x \<Rightarrow> f x tr)"
  by (simp add: and_then_def call_def split: sum.split)

lemma and_then_say: "and_then (say ev) f tr = f () (tr @ [ev])"
  by (simp add: and_then_def say_def)

lemma call_apply: "call r tr = (r, tr)"
  by (simp add: call_def)

lemmas run_simps = and_then_call and_then_say call_apply




lemma and_then_returned: "m tr = (Inr x, tr') \<Longrightarrow> and_then m f tr = f x tr'"
  by (simp add: and_then_def)

lemma one_location_caught:
  assumes "overpass sv k ''United Kingdom'' location = Inr elements"
      and "location_body sv b l og location elements acc (tr @ [Query ''United Kingdom'' location])
             = (Inl e, tr')"
  shows "one_location sv b l og k location acc tr
           = (Inr acc, tr' @ [Say (''Error. Likely no polygons found for '' @ location)])"
  using assms by (simp add: one_location_def try_except_def run_simps)

lemma one_location_returns:
  assumes "overpass sv k ''United Kingdom'' location = Inr elements"
  shows "\<exists>acc' tr'. one_location sv b l og k location acc tr = (Inr acc', tr')"
  using assms
  by (simp add: one_location_def try_except_def run_simps split: sum.split prod.split)

lemma all_locations_return:
  assumes "\<forall>j < length locations. \<exists>els. overpass sv (k + j) ''United Kingdom'' (locations ! j) = Inr els"
  shows "\<exists>acc' tr'. all_locations sv b l og k locations acc tr = (Inr acc', tr')"
  using assms
proof (induction locations arbitrary: k acc tr)
  case Nil
  then show ?case by simp
next
  case (Cons location rest)
  from Cons.prems have "\<exists>els. overpass sv (k + 0) ''United Kingdom'' ((location # rest) ! 0) = Inr els"
    by blast
  then obtain els where els: "overpass sv k ''United Kingdom'' location = Inr els"
    by auto
  obtain acc1 tr1 where one: "one_location sv b l og k location acc tr = (Inr acc1, tr1)"
    using one_location_returns [OF els, of b l og acc tr] by auto
  have "\<forall>j < length rest. \<exists>els. overpass sv (Suc k + j) ''United Kingdom'' (rest ! j) = Inr els"
  proof (intro allI impI)
    fix j assume "j < length rest"
    then have "Suc j < length (location # rest)" by simp
    with Cons.prems
    have "\<exists>els. overpass sv (k + Suc j) ''United Kingdom'' ((location # rest) ! Suc j) = Inr els"
      by blast
    then show "\<exists>els. overpass sv (Suc k + j) ''United Kingdom'' (rest ! j) = Inr els"
      by simp
  qed
  then have "\<exists>acc' tr'. all_locations sv b l og (Suc k) rest acc1 tr1 = (Inr acc', tr')"
    by (rule Cons.IH)
  then show ?case
    using one by simp
qed

lemma point_geohashes:
  "geohash_encode (51::rat) 0 3 = ''u10''"
  "geohash_encode (55::rat) 95 3 = ''y1g''"
  "geohash_encode (55::rat) 160 3 = ''z9c''"
  by (simp_all add: geohash_encode_def eval_nat_numeral base32_def Let_def)

lemma transposed_geohashes:
  "geohash_encode (0::rat) 51 3 = ''t0h''"
  "geohash_encode (95::rat) 55 3 = ''vpz''"
  "geohash_encode (160::rat) 55 3 = ''vpz''"
  by (simp_all add: geohash_encode_def eval_nat_numeral base32_def Let_def)

lemma sorted_keys: "sort (remdups [''t0h'', ''vpz'', ''vpz'']) = [''t0h'', ''vpz'']"
  by code_simp

lemma cluster_geolib:
  "cluster geolib_services [Node 11 51 0 False, Node 12 55 95 False, Node 13 55 160 False]
     = Inr ([((11, 51, 0), ''t0h''), ((12, 55, 95), ''vpz''), ((13, 55, 160), ''vpz'')],
            [\<lparr>geohash = ''t0h'', geometry = [(0, 51)], type_first = ''node'', id_count = 1\<rparr>,
             \<lparr>geohash = ''vpz'', geometry = [(95, 55), (160, 55)], type_first = ''node'',
                id_count = 2\<rparr>])"
  unfolding cluster_def Let_def
  by (simp add: geolib_services_def transposed_geohashes sorted_keys del: remdups.simps sort_key_simps)



section \<open>Properties of the boundary functions\<close>

text \<open>
  Claim C1. With \<open>output_geog = 'overview'\<close>, \<open>convert_string_to_uk_geog\<close> builds
  \<open>output_df\<close> and has no \<open>return\<close> for it: whatever the services answer, the call never
  returns a frame (it returns \<open>None\<close>, or raises when one of its steps raises).
\<close>

theorem overview_never_returns_a_frame:
  "fst (convert_string_to_uk_geog sv location lsoa_boundary_files_path lsoa_msoa_la_lookup_path
          ''overview'' tr) \<noteq> Inr (Some frame)"
  unfolding convert_string_to_uk_geog_def
  by (simp add: run_simps Let_def split: sum.split prod.split)



text \<open>
  Claim C3, as stated, at the list Nowhere, London: the Overpass query for Nowhere
  raises, the query is before the \<open>try\<close>, so the exception ends the run; London is
  never queried.
\<close>

theorem failed_query_aborts:
  "overpass example_geo 0 ''United Kingdom'' ''Nowhere'' = Inl (Exception ''timed out'')
   \<and> convert_list_to_uk_geog example_geo [''Nowhere'', ''London''] ''b.geojson'' ''l.csv'' ''lsoa'' []
       = (Inl (Exception ''timed out''),
          [Say ''Reading in LSOA boundary file... This will take a while...'',
           ReadFile ''b.geojson'', ReadLookup ''l.csv'',
           Query ''United Kingdom'' ''Nowhere''])"
  by code_simp

text \<open>
  Claim C3, amended. The \<open>try\<close> of a location covers everything after the Overpass
  query and the reading of its reply. When the query of a location succeeds and a later
  step of its processing raises, the loop goes on with the remaining locations, with the
  result frames as they were before this location and the message printed after what
  the location had printed so far. When both files load and the query of every location
  of the list succeeds, the run returns a frame (or \<open>None\<close>): it never ends by an
  exception.
\<close>

theorem failure_inside_try_skips_location:
  assumes "read_file sv bp = Inr f1" and "select sv f1 = Inr f2" and "to_crs sv f2 = Inr b"
      and "read_lookup sv lp = Inr l"
      and "\<forall>j < length locations_list.
             \<exists>els. overpass sv j ''United Kingdom'' (locations_list ! j) = Inr els"
      and "overpass sv k ''United Kingdom'' location = Inr elements"
      and "location_body sv b l og location elements acc (tr @ [Query ''United Kingdom'' location])
             = (Inl e, tr')"
  shows "all_locations sv b l og k (location # rest) acc tr
           = all_locations sv b l og (Suc k) rest acc
               (tr' @ [Say (''Error. Likely no polygons found for '' @ location)])
       \<and> (\<exists>frame tr''. convert_list_to_uk_geog sv locations_list bp lp og tr0 = (Inr frame, tr''))"
proof
  show "all_locations sv b l og k (location # rest) acc tr
           = all_locations sv b l og (Suc k) rest acc
               (tr' @ [Say (''Error. Likely no polygons found for '' @ location)])"
    using one_location_caught [OF assms(6,7)] by simp
next
  let ?tr = "tr0 @ [Say ''Reading in LSOA boundary file... This will take a while...'',
                    ReadFile bp, ReadLookup lp]"
  have "\<forall>j < length locations_list.
          \<exists>els. overpass sv (0 + j) ''United Kingdom'' (locations_list ! j) = Inr els"
    using assms(5) by simp
  then have "\<exists>acc' tr1. all_locations sv b l og 0 locations_list no_results ?tr = (Inr acc', tr1)"
    by (rule all_locations_return)
  then obtain acc' tr1 where
    loop: "all_locations sv b l og 0 locations_list no_results ?tr = (Inr acc', tr1)"
    by auto
  show "\<exists>frame tr''. convert_list_to_uk_geog sv locations_list bp lp og tr0 = (Inr frame, tr'')"
    using assms(1-4)
    by (simp add: convert_list_to_uk_geog_def run_simps
          and_then_returned [where m = "all_locations sv b l og 0 locations_list no_results", OF loop])
qed

theorem failure_inside_try_skips_location_witness:
  "read_file example_geo ''b.geojson'' = Inr ''boundaries''
   \<and> select example_geo ''boundaries'' = Inr ''boundaries''
   \<and> to_crs example_geo ''boundaries'' = Inr ''boundaries''
   \<and> read_lookup example_geo ''l.csv'' = Inr ''lookup''
   \<and> overpass example_geo 0 ''United Kingdom'' ''Atlantis'' = Inr []
   \<and> (\<exists>els. overpass example_geo 1 ''United Kingdom'' ''London'' = Inr els)
   \<and> location_body example_geo ''boundaries'' ''lookup'' ''lsoa'' ''Atlantis'' [] no_results
         ([] @ [Query ''United Kingdom'' ''Atlantis''])
       = (Inl (KeyError (quoted ''type'')), [Query ''United Kingdom'' ''Atlantis''])
   \<and> all_locations example_geo ''boundaries'' ''lookup'' ''lsoa'' 0 [''Atlantis'', ''London'']
         no_results []
       = all_locations example_geo ''boundaries'' ''lookup'' ''lsoa'' 1 [''London''] no_results
           [Query ''United Kingdom'' ''Atlantis'',
            Say ''Error. Likely no polygons found for Atlantis'']
   \<and> (\<exists>frame tr''. convert_list_to_uk_geog example_geo [''Atlantis'', ''London''] ''b.geojson''
                       ''l.csv'' ''lsoa'' [] = (Inr frame, tr''))
   \<and> convert_list_to_uk_geog example_geo [''Atlantis'', ''London''] ''b.geojson'' ''l.csv'' ''lsoa'' []
       = (Inr (Some (LocatedCodes ''LSOA21CD'' ''LSOA21NM''
                       [(''London'', Some ''E01000001'', Some ''City of London 001A'')])),
          [Say ''Reading in LSOA boundary file... This will take a while...'',
           ReadFile ''b.geojson'', ReadLookup ''l.csv'',
           Query ''United Kingdom'' ''Atlantis'',
           Say ''Error. Likely no polygons found for Atlantis'',
           Query ''United Kingdom'' ''London'', SayPolygons 2 (Some ''London''),
           ShowPolygons (Reset [(0, [(0, 51), (1, 52)]), (3, [(30, 51)])]),
           Say ''Performing spatial join...''])"
proof -
  have run: "convert_list_to_uk_geog example_geo [''Atlantis'', ''London''] ''b.geojson'' ''l.csv''
               ''lsoa'' []
       = (Inr (Some (LocatedCodes ''LSOA21CD'' ''LSOA21NM''
                       [(''London'', Some ''E01000001'', Some ''City of London 001A'')])),
          [Say ''Reading in LSOA boundary file... This will take a while...'',
           ReadFile ''b.geojson'', ReadLookup ''l.csv'',
           Query ''United Kingdom'' ''Atlantis'',
           Say ''Error. Likely no polygons found for Atlantis'',
           Query ''United Kingdom'' ''London'', SayPolygons 2 (Some ''London''),
           ShowPolygons (Reset [(0, [(0, 51), (1, 52)]), (3, [(30, 51)])]),
           Say ''Performing spatial join...''])"
    by code_simp
  have h1: "read_file example_geo ''b.geojson'' = Inr ''boundaries''"
    by (simp add: example_geo_def)
  have h2: "select example_geo ''boundaries'' = Inr ''boundaries''"
    by (simp add: example_geo_def)
  have h3: "to_crs example_geo ''boundaries'' = Inr ''boundaries''"
    by (simp add: example_geo_def)
  have h4: "read_lookup example_geo ''l.csv'' = Inr ''lookup''"
    by (simp add: example_geo_def)
  have h5: "\<forall>j < length [''Atlantis'', ''London''].
         \<exists>els. overpass example_geo j ''United Kingdom'' ([''Atlantis'', ''London''] ! j) = Inr els"
    by (simp add: example_geo_def nth_Cons')
  have h6: "overpass example_geo 0 ''United Kingdom'' ''Atlantis'' = Inr []"
    by (simp add: example_geo_def)
  have h7: "location_body example_geo ''boundaries'' ''lookup'' ''lsoa'' ''Atlantis'' [] no_results
         ([] @ [Query ''United Kingdom'' ''Atlantis''])
       = (Inl (KeyError (quoted ''type'')), [Query ''United Kingdom'' ''Atlantis''])"
    by (simp add: location_body_def cluster_def run_simps)
  have h8: "\<exists>els. overpass example_geo 1 ''United Kingdom'' ''London'' = Inr els"
    by (simp add: example_geo_def)
  show ?thesis
    using h1 h2 h3 h4 h6 h7 h8 run
      failure_inside_try_skips_location [OF h1 h2 h3 h4 h5 h6 h7, of "[''London'']" "[]"]
    by simp
qed

text \<open>
  What the clustering does with the keys it computes. When the reply has a node without
  tags and the library accepts the reference system, the clustering succeeds: every such
  node gets the key \<open>encode(lon, lat, 3)\<close>; there is exactly one polygon per key that
  occurs; the geometry of a polygon is the convex hull of the union of the points
  \<open>(lon, lat)\<close> of the nodes with its key; and these polygons are what
  \<open>convert_string_to_boundary\<close> returns. The two UK functions run the same clustering.
\<close>

lemma cluster_one_polygon_per_key:
  assumes "node_rows (filter (\<lambda>i. \<not> has_tags i) elements) \<noteq> []"
      and "crs_error sv ''epsg:4386'' = None"
      and "overpass sv 0 country location = Inr elements"
  shows "\<exists>coordinates_df polygons.
           cluster sv elements = Inr (coordinates_df, polygons)
         \<and> coordinates_df
             = map (\<lambda>(i, la, lo). ((i, la, lo), encode sv lo la 3))
                 (node_rows (filter (\<lambda>i. \<not> has_tags i) elements))
         \<and> distinct (map geohash polygons)
         \<and> set (map geohash polygons) = snd ` set coordinates_df
         \<and> (\<forall>p \<in> set polygons.
               geometry p
                 = convex_hull sv (unary_union sv
                     (map (\<lambda>((i, la, lo), h). (lo, la))
                        (filter (\<lambda>r. snd r = geohash p) coordinates_df))))
         \<and> fst (convert_string_to_boundary sv country location True tr) = Inr (Geometry polygons)"
proof -
  define coordinates_df where
    "coordinates_df = map (\<lambda>(i, la, lo). ((i, la, lo), encode sv lo la 3))
                        (node_rows (filter (\<lambda>i. \<not> has_tags i) elements))"
  define polygons where
    "polygons = map (\<lambda>h. \<lparr>geohash = h,
                          geometry = convex_hull sv (unary_union sv
                            (map (\<lambda>((i, la, lo), k). (lo, la))
                               (filter (\<lambda>r. snd r = h) coordinates_df))),
                          type_first = ''node'',
                          id_count = length (filter (\<lambda>r. snd r = h) coordinates_df)\<rparr>)
                   (sort (remdups (map snd coordinates_df)))"
  have nonempty: "filter (\<lambda>i. \<not> has_tags i) elements \<noteq> []"
    using assms(1) by auto
  have run: "cluster sv elements = Inr (coordinates_df, polygons)"
    using assms(1,2) nonempty
    by (simp add: cluster_def Let_def coordinates_df_def polygons_def)
  have keys: "map geohash polygons = sort (remdups (map snd coordinates_df))"
    by (simp add: polygons_def comp_def)
  have "distinct (map geohash polygons)"
    by (simp add: keys)
  moreover have "set (map geohash polygons) = snd ` set coordinates_df"
    by (simp add: keys)
  moreover have "\<forall>p \<in> set polygons.
               geometry p
                 = convex_hull sv (unary_union sv
                     (map (\<lambda>((i, la, lo), h). (lo, la))
                        (filter (\<lambda>r. snd r = geohash p) coordinates_df)))"
    by (auto simp: polygons_def)
  moreover have "fst (convert_string_to_boundary sv country location True tr)
                   = Inr (Geometry polygons)"
    using assms(3) run by (simp add: convert_string_to_boundary_def run_simps)
  ultimately show ?thesis
    using run coordinates_df_def by blast
qed

text \<open>
  Claim C6. The key is not the geohash of the point: the call passes the longitude where
  the library expects the latitude. A node at latitude 51, longitude 0 has the geohash
  \<open>u10\<close> and is filed under \<open>t0h\<close>. Two nodes at latitude 55 with longitudes 95 and 160
  have the geohashes \<open>y1g\<close> and \<open>z9c\<close>; both get the key \<open>vpz\<close>, so they are in one
  group and \<open>convert_string_to_boundary\<close> returns one polygon over both.
\<close>

theorem geohash_arguments_transposed:
  "geohash_encode (51::rat) 0 3 = ''u10''
   \<and> geohash_encode (55::rat) 95 3 = ''y1g''
   \<and> geohash_encode (55::rat) 160 3 = ''z9c''
   \<and> overpass geolib_services 0 ''Russia'' ''Sosnovka''
       = Inr [Node 11 51 0 False, Node 12 55 95 False, Node 13 55 160 False]
   \<and> convert_string_to_boundary geolib_services ''Russia'' ''Sosnovka'' False []
       = (Inr (Coordinates [((11, 51, 0), ''t0h''), ((12, 55, 95), ''vpz''), ((13, 55, 160), ''vpz'')]),
          [Query ''Russia'' ''Sosnovka''])
   \<and> convert_string_to_boundary geolib_services ''Russia'' ''Sosnovka'' True []
       = (Inr (Geometry
                 [\<lparr>geohash = ''t0h'', geometry = [(0, 51)], type_first = ''node'', id_count = 1\<rparr>,
                  \<lparr>geohash = ''vpz'', geometry = [(95, 55), (160, 55)], type_first = ''node'',
                     id_count = 2\<rparr>]),
          [Query ''Russia'' ''Sosnovka''])"
proof -
  have reply: "overpass geolib_services 0 ''Russia'' ''Sosnovka''
                 = Inr [Node 11 51 0 False, Node 12 55 95 False, Node 13 55 160 False]"
    by (simp add: geolib_services_def)
  show ?thesis
    by (simp add: point_geohashes reply convert_string_to_boundary_def run_simps cluster_geolib)
qed

end
